theory Spec2Isabelle
  imports Main "HOL-Library.AList"
begin

section \<open>JavaScript values\<close>

text \<open>
  The scripts only handle values that come out of JSON responses, module constants and
  the process environment, so a JavaScript value is a JSON value or \<open>undefined\<close>.
  An object is the list of its own properties in enumeration order (keys distinct, as
  \<open>JSON.parse\<close> produces them). Numbers are integers: status codes and counts are
  the only numbers the scripts compute with. \<open>to_string\<close> prints every digit of
  a number, as a template literal does for integers of magnitude below \<open>10^21\<close>;
  a numeric id beyond \<open>2^53\<close>, which \<open>JSON.parse\<close> would round, is outside the model.
\<close>

datatype json =
    JUndef
  | JNull
  | JBool bool
  | JNum int
  | JStr string
  | JArr "json list"
  | JObj "(string \<times> json) list"

datatype error = AxiosError | TypeError

text \<open>Pure code that may throw: the result is \<open>Inl\<close> the thrown error or \<open>Inr\<close> the value.\<close>

definition bind_err :: "error + 'a \<Rightarrow> ('a \<Rightarrow> error + 'b) \<Rightarrow> error + 'b" where
  "bind_err r f = (case r of Inl e \<Rightarrow> Inl e | Inr x \<Rightarrow> f x)"

subsection \<open>Conversion to string (template literals)\<close>

definition digit_char :: "nat \<Rightarrow> char" where
  "digit_char d = char_of (48 + d)"

function string_of_nat :: "nat \<Rightarrow> string" where
  "string_of_nat n =
     (if n < 10 then [digit_char n]
      else string_of_nat (n div 10) @ [digit_char (n mod 10)])"
  by pat_completeness auto
termination
  by (relation "measure (\<lambda>n. n)") auto

definition string_of_int :: "int \<Rightarrow> string" where
  "string_of_int i =
     (if i < 0 then CHR ''-'' # string_of_nat (nat (- i)) else string_of_nat (nat i))"

fun join :: "string \<Rightarrow> string list \<Rightarrow> string" where
  "join sep [] = []"
| "join sep [x] = x"
| "join sep (x # y # ys) = x @ sep @ join sep (y # ys)"

text \<open>
  \<open>`${v}`\<close>: \<open>undefined\<close> and \<open>null\<close> print as these words, an array as its
  elements joined by commas (an \<open>undefined\<close> or \<open>null\<close> element as the empty
  string), an object as \<open>[object Object]\<close>.
\<close>

fun to_string :: "json \<Rightarrow> string" where
  "to_string JUndef = ''undefined''"
| "to_string JNull = ''null''"
| "to_string (JBool b) = (if b then ''true'' else ''false'')"
| "to_string (JNum i) = string_of_int i"
| "to_string (JStr s) = s"
| "to_string (JArr xs) =
     join '','' (map (\<lambda>x. if x = JUndef \<or> x = JNull then [] else to_string x) xs)"
| "to_string (JObj kvs) = ''[object Object]''"

subsection \<open>Truthiness, property access, indexing\<close>

fun truthy :: "json \<Rightarrow> bool" where
  "truthy JUndef = False"
| "truthy JNull = False"
| "truthy (JBool b) = b"
| "truthy (JNum i) = (i \<noteq> 0)"
| "truthy (JStr s) = (s \<noteq> [])"
| "truthy (JArr xs) = True"
| "truthy (JObj kvs) = True"

text \<open>
  \<open>v.k\<close> for a property name \<open>k\<close>: reading a property of \<open>undefined\<close> or
  \<open>null\<close> throws a TypeError; an absent property is \<open>undefined\<close>. The names the
  scripts read (\<open>owner\<close>, \<open>service\<close>, \<open>type\<close>, \<open>id\<close>, \<open>postgres\<close>, \<open>event\<close>,
  \<open>details\<close>, \<open>timestamp\<close>, \<open>name\<close>, \<open>status\<close>, \<open>createdAt\<close>,
  \<open>internalConnectionString\<close>, \<open>length\<close>) are no prototype members of arrays,
  strings, numbers or booleans other than \<open>length\<close>.
\<close>

fun js_get :: "json \<Rightarrow> string \<Rightarrow> error + json" where
  "js_get JUndef k = Inl TypeError"
| "js_get JNull k = Inl TypeError"
| "js_get (JObj kvs) k = Inr (case map_of kvs k of None \<Rightarrow> JUndef | Some v \<Rightarrow> v)"
| "js_get (JArr xs) k = Inr (if k = ''length'' then JNum (int (length xs)) else JUndef)"
| "js_get (JStr s) k = Inr (if k = ''length'' then JNum (int (length s)) else JUndef)"
| "js_get (JBool b) k = Inr JUndef"
| "js_get (JNum i) k = Inr JUndef"

text \<open>\<open>v[0]\<close>.\<close>

fun js_first :: "json \<Rightarrow> error + json" where
  "js_first JUndef = Inl TypeError"
| "js_first JNull = Inl TypeError"
| "js_first (JArr xs) = Inr (case xs of [] \<Rightarrow> JUndef | x # _ \<Rightarrow> x)"
| "js_first (JStr s) = Inr (case s of [] \<Rightarrow> JUndef | c # _ \<Rightarrow> JStr [c])"
| "js_first (JObj kvs) = Inr (case map_of kvs ''0'' of None \<Rightarrow> JUndef | Some v \<Rightarrow> v)"
| "js_first (JBool b) = Inr JUndef"
| "js_first (JNum i) = Inr JUndef"

text \<open>\<open>Object.values(v)\<close>.\<close>

fun object_values :: "json \<Rightarrow> error + json list" where
  "object_values JUndef = Inl TypeError"
| "object_values JNull = Inl TypeError"
| "object_values (JObj kvs) = Inr (map snd kvs)"
| "object_values (JArr xs) = Inr xs"
| "object_values (JStr s) = Inr (map (\<lambda>c. JStr [c]) s)"
| "object_values (JBool b) = Inr []"
| "object_values (JNum i) = Inr []"

text \<open>The own enumerable properties that \<open>{...v}\<close> copies; spreading never throws.\<close>

fun spread :: "json \<Rightarrow> (string \<times> json) list" where
  "spread (JObj kvs) = kvs"
| "spread (JArr xs) = zip (map string_of_nat [0..<length xs]) xs"
| "spread (JStr s) = zip (map string_of_nat [0..<length s]) (map (\<lambda>c. JStr [c]) s)"
| "spread JUndef = []"
| "spread JNull = []"
| "spread (JBool b) = []"
| "spread (JNum i) = []"

text \<open>\<open>Array.prototype.filter\<close> and \<open>map\<close> with a callback that may throw.\<close>

fun filter_err :: "('a \<Rightarrow> error + bool) \<Rightarrow> 'a list \<Rightarrow> error + 'a list" where
  "filter_err p [] = Inr []"
| "filter_err p (x # xs) =
     bind_err (p x) (\<lambda>keep.
     bind_err (filter_err p xs) (\<lambda>ys.
     Inr (if keep then x # ys else ys)))"

fun map_err :: "('a \<Rightarrow> error + 'b) \<Rightarrow> 'a list \<Rightarrow> error + 'b list" where
  "map_err f [] = Inr []"
| "map_err f (x # xs) =
     bind_err (f x) (\<lambda>y.
     bind_err (map_err f xs) (\<lambda>ys.
     Inr (y # ys)))"

text \<open>\<open>Array.prototype.reduce\<close> with an initial value.\<close>

fun reduce_err :: "('b \<Rightarrow> 'a \<Rightarrow> error + 'b) \<Rightarrow> 'a list \<Rightarrow> 'b \<Rightarrow> error + 'b" where
  "reduce_err f [] acc = Inr acc"
| "reduce_err f (x # xs) acc = bind_err (f acc x) (\<lambda>acc'. reduce_err f xs acc')"

section \<open>The HTTP client and the console\<close>

datatype http_method = GET | POST | PUT | DELETE

record request =
  meth :: http_method
  url :: string
  headers :: "(string \<times> string) list"
  body :: json

record response =
  status :: int
  data :: json

text \<open>
  What a run does to the outside world, in order: the requests it issues and the lines it
  writes to the console (the error objects that \<open>console.error\<close> prints after its label
  are left out, and so are chalk's colour codes).
\<close>

datatype event = Call request | Log string | LogError string

type_synonym trace = "event list"

fun calls :: "trace \<Rightarrow> request list" where
  "calls [] = []"
| "calls (Call r # t) = r # calls t"
| "calls (Log m # t) = calls t"
| "calls (LogError m # t) = calls t"

text \<open>
  The remote API: given the requests issued so far and a new request, it answers with a
  response, or axios throws (\<open>None\<close>: no answer, or a status outside 2xx).
\<close>

type_synonym server = "request list \<Rightarrow> request \<Rightarrow> response option"

text \<open>An async function: from the trace so far to its outcome and the extended trace.\<close>

type_synonym 'a io = "trace \<Rightarrow> (error + 'a) \<times> trace"

definition return_io :: "'a \<Rightarrow> 'a io" where
  "return_io x = (\<lambda>t. (Inr x, t))"

definition throw_io :: "error \<Rightarrow> 'a io" where
  "throw_io e = (\<lambda>t. (Inl e, t))"

definition lift_io :: "error + 'a \<Rightarrow> 'a io" where
  "lift_io r = (\<lambda>t. (r, t))"

definition bind_io :: "'a io \<Rightarrow> ('a \<Rightarrow> 'b io) \<Rightarrow> 'b io" where
  "bind_io m f = (\<lambda>t. case m t of (Inl e, t') \<Rightarrow> (Inl e, t') | (Inr x, t') \<Rightarrow> f x t')"

definition catch_io :: "'a io \<Rightarrow> (error \<Rightarrow> 'a io) \<Rightarrow> 'a io" where
  "catch_io m h = (\<lambda>t. case m t of (Inl e, t') \<Rightarrow> h e t' | (Inr x, t') \<Rightarrow> (Inr x, t'))"

definition console_log :: "string \<Rightarrow> unit io" where
  "console_log m = (\<lambda>t. (Inr (), t @ [Log m]))"

definition console_error :: "string \<Rightarrow> unit io" where
  "console_error m = (\<lambda>t. (Inr (), t @ [LogError m]))"

text \<open>The catch block every accessor has: log, then re-throw.\<close>

definition log_and_rethrow :: "string \<Rightarrow> error \<Rightarrow> 'a io" where
  "log_and_rethrow m e = bind_io (console_error m) (\<lambda>_. throw_io e)"

definition answer :: "server \<Rightarrow> request \<Rightarrow> trace \<Rightarrow> error + response" where
  "answer w r t = (case w (calls t) r of None \<Rightarrow> Inl AxiosError | Some resp \<Rightarrow> Inr resp)"

definition axios :: "server \<Rightarrow> request \<Rightarrow> response io" where
  "axios w r = (\<lambda>t. (answer w r t, t @ [Call r]))"

section \<open>Configuration\<close>

text \<open>
  The module constants \<open>databaseName\<close>, \<open>databaseKey\<close> and \<open>baseUrl\<close>, and \<open>key\<close>,
  read from \<open>process.env.API_KEY\<close>. The first two are \<open>null\<close> in the repository and
  are filled in by the user; \<open>key\<close> is \<open>undefined\<close> when the variable is not set.
\<close>

record config =
  databaseName :: json
  databaseKey :: json
  baseUrl :: json
  key :: json

definition options :: "config \<Rightarrow> (string \<times> string) list" where
  "options cfg =
     [(''accept'', ''application/json''),
      (''Content-Type'', ''application/json''),
      (''authorization'', ''Bearer '' @ to_string (key cfg))]"

definition get_request :: "config \<Rightarrow> string \<Rightarrow> request" where
  "get_request cfg u = \<lparr>meth = GET, url = u, headers = options cfg, body = JUndef\<rparr>"

definition delete_request :: "config \<Rightarrow> string \<Rightarrow> request" where
  "delete_request cfg u = \<lparr>meth = DELETE, url = u, headers = options cfg, body = JUndef\<rparr>"

definition post_request :: "config \<Rightarrow> string \<Rightarrow> json \<Rightarrow> request" where
  "post_request cfg u b = \<lparr>meth = POST, url = u, headers = options cfg, body = b\<rparr>"

definition put_request :: "config \<Rightarrow> string \<Rightarrow> json \<Rightarrow> request" where
  "put_request cfg u b = \<lparr>meth = PUT, url = u, headers = options cfg, body = b\<rparr>"

definition axios_get :: "server \<Rightarrow> config \<Rightarrow> string \<Rightarrow> response io" where
  "axios_get w cfg u = axios w (get_request cfg u)"

definition axios_delete :: "server \<Rightarrow> config \<Rightarrow> string \<Rightarrow> response io" where
  "axios_delete w cfg u = axios w (delete_request cfg u)"

definition axios_post :: "server \<Rightarrow> config \<Rightarrow> string \<Rightarrow> json \<Rightarrow> response io" where
  "axios_post w cfg u b = axios w (post_request cfg u b)"

definition axios_put :: "server \<Rightarrow> config \<Rightarrow> string \<Rightarrow> json \<Rightarrow> response io" where
  "axios_put w cfg u b = axios w (put_request cfg u b)"

section \<open>Resource accessors\<close>

text \<open>
  \<open>fetchOwner\<close>, \<open>fetchDatabase\<close>, \<open>fetchConnectionInfo\<close> (\<open>fetchDatabaseDetails\<close> in the
  fan-out script), \<open>deleteDatabase\<close>, \<open>updateEnvVariable\<close> and \<open>deployService\<close> have the
  same text in the three scripts. \<open>createDatabase\<close> takes the name as a parameter in the
  fan-out script and reads the constant \<open>databaseName\<close> in the other two.
\<close>

definition fetchOwner :: "server \<Rightarrow> config \<Rightarrow> json io" where
  "fetchOwner w cfg =
     catch_io
       (bind_io (axios_get w cfg (to_string (baseUrl cfg) @ ''/owners?limit=1'')) (\<lambda>response.
        if status response = 200 then
          lift_io (bind_err (js_first (data response)) (\<lambda>first. js_get first ''owner''))
        else return_io JUndef))
       (log_and_rethrow ''Error fetching owner:'')"

definition is_web_service :: "json \<Rightarrow> error + bool" where
  "is_web_service item =
     bind_err (js_get item ''service'') (\<lambda>service.
     bind_err (js_get service ''type'') (\<lambda>ty.
     Inr (ty = JStr ''web_service'')))"

text \<open>\<open>response.data.filter(...)\<close>: only an array has a \<open>filter\<close> method.\<close>

definition web_services :: "json \<Rightarrow> error + json list" where
  "web_services d = (case d of JArr items \<Rightarrow> filter_err is_web_service items | _ \<Rightarrow> Inl TypeError)"

text \<open>\<open>fetchServices\<close> of the interactive script (index.js) and of the module script.\<close>

definition fetchServices :: "server \<Rightarrow> config \<Rightarrow> json list io" where
  "fetchServices w cfg =
     catch_io
       (bind_io (axios_get w cfg (to_string (baseUrl cfg) @ ''/services'')) (\<lambda>response.
        bind_io (lift_io (web_services (data response))) (\<lambda>services.
        return_io (filter (\<lambda>service. service \<noteq> JNull) services))))
       (log_and_rethrow ''Error fetching services:'')"

definition deployService :: "server \<Rightarrow> config \<Rightarrow> json \<Rightarrow> json io" where
  "deployService w cfg serviceId =
     catch_io
       (bind_io
          (axios_post w cfg (to_string (baseUrl cfg) @ ''/services/'' @ to_string serviceId @ ''/deploys'')
             (JObj [(''clearCache'', JStr ''do_not_clear'')]))
          (\<lambda>response. return_io (data response)))
       (log_and_rethrow (''Error deploying service ID '' @ to_string serviceId @ '':''))"

definition fetchDatabase :: "server \<Rightarrow> config \<Rightarrow> json io" where
  "fetchDatabase w cfg =
     catch_io
       (bind_io (axios_get w cfg (to_string (baseUrl cfg) @ ''/postgres'')) (\<lambda>response.
        lift_io
          (bind_err (js_get (data response) ''length'') (\<lambda>len.
           if truthy len then
             bind_err (js_first (data response)) (\<lambda>first. js_get first ''postgres'')
           else Inr (JObj [])))))
       (log_and_rethrow ''Error fetching database:'')"

definition fetchConnectionInfo :: "server \<Rightarrow> config \<Rightarrow> json \<Rightarrow> json io" where
  "fetchConnectionInfo w cfg databaseId =
     catch_io
       (bind_io
          (axios_get w cfg
             (to_string (baseUrl cfg) @ ''/postgres/'' @ to_string databaseId @ ''/connection-info''))
          (\<lambda>response. return_io (data response)))
       (log_and_rethrow (''Error fetching details for database ID '' @ to_string databaseId @ '':''))"

definition createDatabase :: "server \<Rightarrow> config \<Rightarrow> json \<Rightarrow> json \<Rightarrow> json io" where
  "createDatabase w cfg dbName ownerId =
     catch_io
       (bind_io
          (axios_post w cfg (to_string (baseUrl cfg) @ ''/postgres'')
             (JObj [(''enableHighAvailability'', JBool False),
                    (''plan'', JStr ''free''),
                    (''version'', JStr ''16''),
                    (''name'', dbName),
                    (''ownerId'', ownerId)]))
          (\<lambda>response. return_io (data response)))
       (log_and_rethrow ''Error creating database:'')"

definition deleteDatabase :: "server \<Rightarrow> config \<Rightarrow> json \<Rightarrow> response io" where
  "deleteDatabase w cfg databaseId =
     catch_io
       (bind_io (axios_delete w cfg (to_string (baseUrl cfg) @ ''/postgres/'' @ to_string databaseId))
          (\<lambda>response. return_io response))
       (log_and_rethrow (''Error deleting database ID '' @ to_string databaseId @ '':''))"

definition updateEnvVariable :: "server \<Rightarrow> config \<Rightarrow> json \<Rightarrow> json \<Rightarrow> json \<Rightarrow> json io" where
  "updateEnvVariable w cfg serviceId envKey envValue =
     catch_io
       (bind_io
          (axios_put w cfg
             (to_string (baseUrl cfg) @ ''/services/'' @ to_string serviceId @ ''/env-vars/''
                @ to_string envKey)
             (JObj [(''value'', envValue)]))
          (\<lambda>response. return_io (data response)))
       (log_and_rethrow
          (''Error updating environment variable for service ID '' @ to_string serviceId @ '':''))"

definition isEmpty :: "json \<Rightarrow> error + bool" where
  "isEmpty obj = bind_err (object_values obj) (\<lambda>vs. Inr (length vs = 0))"

section \<open>The rebuild workflow\<close>

text \<open>The \<open>for ... of\<close> loop over the fetched services.\<close>

fun repointServices :: "server \<Rightarrow> config \<Rightarrow> json \<Rightarrow> json \<Rightarrow> json list \<Rightarrow> unit io" where
  "repointServices w cfg envKey envValue [] = return_io ()"
| "repointServices w cfg envKey envValue (service # rest) =
     bind_io (lift_io (js_get service ''id'')) (\<lambda>serviceId.
     bind_io (updateEnvVariable w cfg serviceId envKey envValue) (\<lambda>_.
     bind_io (lift_io (js_get service ''id'')) (\<lambda>serviceId'.
     bind_io (deployService w cfg serviceId') (\<lambda>_.
     repointServices w cfg envKey envValue rest))))"

text \<open>
  The try block from \<open>createDatabase\<close> on: create, read the connection string, repoint
  and deploy every service, report.
\<close>

definition createAndRepoint :: "server \<Rightarrow> config \<Rightarrow> json \<Rightarrow> json \<Rightarrow> json \<Rightarrow> json list \<Rightarrow> unit io" where
  "createAndRepoint w cfg dbName envKey owner services =
     bind_io (lift_io (js_get owner ''id'')) (\<lambda>ownerId.
     bind_io (createDatabase w cfg dbName ownerId) (\<lambda>created.
     bind_io (lift_io (js_get created ''name'')) (\<lambda>name.
     bind_io (lift_io (js_get created ''status'')) (\<lambda>st.
     bind_io (lift_io (js_get created ''id'')) (\<lambda>ident.
     bind_io (lift_io (js_get created ''createdAt'')) (\<lambda>createdAt.
     bind_io (fetchConnectionInfo w cfg ident) (\<lambda>info.
     bind_io (lift_io (js_get info ''internalConnectionString'')) (\<lambda>internalConnectionString.
     bind_io
       (lift_io
          (js_get
             (JObj [(''name'', name), (''status'', st), (''id'', ident), (''createdAt'', createdAt),
                    (''internalDatabaseUrl'', internalConnectionString)])
             ''internalDatabaseUrl''))
       (\<lambda>internalDatabaseUrl.
     bind_io (repointServices w cfg envKey internalDatabaseUrl services) (\<lambda>_.
     console_log ''done!''))))))))))"

text \<open>
  The try/catch of \<open>rebuildDatabase\<close>. The three scripts differ in how the services are
  fetched (\<open>fetchSvcs\<close>) and in the database name and the environment key they pass.
\<close>

definition rebuildSteps :: "server \<Rightarrow> config \<Rightarrow> json list io \<Rightarrow> json \<Rightarrow> json \<Rightarrow> unit io" where
  "rebuildSteps w cfg fetchSvcs dbName envKey =
     catch_io
       (bind_io (fetchOwner w cfg) (\<lambda>owner.
        bind_io fetchSvcs (\<lambda>services.
        bind_io (fetchDatabase w cfg) (\<lambda>database.
        bind_io (lift_io (isEmpty database)) (\<lambda>empty.
        if \<not> empty then
          bind_io (lift_io (js_get database ''id'')) (\<lambda>databaseId.
          bind_io (deleteDatabase w cfg databaseId) (\<lambda>deleteDb.
          if status deleteDb \<noteq> 204 then console_error ''Failed to delete existing database.''
          else createAndRepoint w cfg dbName envKey owner services))
        else createAndRepoint w cfg dbName envKey owner services)))))
       (\<lambda>e. console_error ''Error during database rebuild:'')"

text \<open>\<open>rebuildDatabase\<close> of the interactive script (index.js).\<close>

definition rebuildDatabase :: "server \<Rightarrow> config \<Rightarrow> unit io" where
  "rebuildDatabase w cfg =
     bind_io (console_log ''Rebuilding database...'') (\<lambda>_.
     rebuildSteps w cfg (fetchServices w cfg) (databaseName cfg) (databaseKey cfg))"

section \<open>Configuration check\<close>

definition missingVariables :: "config \<Rightarrow> string list" where
  "missingVariables cfg =
     (if \<not> truthy (databaseName cfg) then [''databaseName''] else []) @
     (if \<not> truthy (databaseKey cfg) then [''databaseKey''] else []) @
     (if \<not> truthy (baseUrl cfg) then [''baseUrl''] else []) @
     (if \<not> truthy (key cfg) then [''key''] else [])"

definition missing_message :: "string list \<Rightarrow> string" where
  "missing_message missing =
     ''The following variables still don'' @ [CHR 0x27] @ ''t have a value: '' @ join '', '' missing"

definition all_set_message :: string where
  "all_set_message = ''All variables are set. Rebuilding database...'' @ [CHR 0x0A]"

text \<open>\<open>validateVariables\<close> of the module script.\<close>

definition validateVariables :: "config \<Rightarrow> bool io" where
  "validateVariables cfg =
     (if missingVariables cfg \<noteq> [] then
        bind_io (console_log (missing_message (missingVariables cfg))) (\<lambda>_.
        bind_io (console_log ''Please add them for the script to run...'') (\<lambda>_.
        return_io False))
      else
        bind_io (console_log all_set_message) (\<lambda>_. return_io True))"

text \<open>\<open>rebuildDatabase\<close> of the module script: it validates first.\<close>

definition rebuildDatabase_module :: "server \<Rightarrow> config \<Rightarrow> unit io" where
  "rebuildDatabase_module w cfg =
     bind_io (validateVariables cfg) (\<lambda>isValid.
     if \<not> isValid then return_io ()
     else
       bind_io (console_log ''Rebuilding database...'') (\<lambda>_.
       rebuildSteps w cfg (fetchServices w cfg) (databaseName cfg) (databaseKey cfg)))"

text \<open>
  \<open>runScript\<close> of the interactive script: the same check, then \<open>rebuildDatabase\<close>.
  The script does not await that call; the model runs it to its end (the timer with which
  the menu ends the process is not modelled).
\<close>

definition runScript :: "server \<Rightarrow> config \<Rightarrow> unit io" where
  "runScript w cfg =
     (if missingVariables cfg \<noteq> [] then
        bind_io (console_log (missing_message (missingVariables cfg))) (\<lambda>_.
        console_log ''Please add them for the script to run...'')
      else
        bind_io (console_log all_set_message) (\<lambda>_. rebuildDatabase w cfg))"

section \<open>The fan-out script\<close>

definition eventsRequest :: "config \<Rightarrow> json \<Rightarrow> request" where
  "eventsRequest cfg serviceId =
     get_request cfg (to_string (baseUrl cfg) @ ''/services/'' @ to_string serviceId @ ''/events'')"

text \<open>The callback of \<open>reduce\<close> in \<open>fetchEventDetails\<close>.\<close>

definition latestStep :: "json \<Rightarrow> json \<Rightarrow> error + json" where
  "latestStep obj item =
     bind_err (js_get item ''event'') (\<lambda>ev.
     bind_err (js_get ev ''type'') (\<lambda>ty.
     if ty = JStr ''deploy_ended'' then
       bind_err (js_get ev ''details'') (\<lambda>details.
       bind_err (js_get ev ''timestamp'') (\<lambda>ts.
       Inr (JObj (AList.update ''lastDeployed'' ts (spread details)))))
     else Inr obj))"

definition latestDetails :: "json \<Rightarrow> error + json" where
  "latestDetails d =
     (case d of JArr items \<Rightarrow> reduce_err latestStep items (JObj []) | _ \<Rightarrow> Inl TypeError)"

definition fetchEventDetails :: "server \<Rightarrow> config \<Rightarrow> json \<Rightarrow> json io" where
  "fetchEventDetails w cfg serviceId =
     catch_io
       (bind_io (axios w (eventsRequest cfg serviceId)) (\<lambda>response.
        lift_io (latestDetails (data response))))
       (log_and_rethrow (''Error fetching event details for service ID '' @ to_string serviceId @ '':''))"

text \<open>
  \<open>Promise.all(services.map(async ...))\<close> runs every callback up to its first
  \<open>await\<close>, which issues the events request of every service in list order, and then
  resumes each callback with the answer to its request. So \<open>fetchEventDetails\<close> is
  split at its \<open>await\<close>: \<open>fetchEventDetails_resume\<close> is what it does once the answer
  (or the failure) of its request is there. The callbacks are resumed here in list
  order; in a run they resume in the order the answers arrive, which only changes the
  order of their console lines.
\<close>

definition fetchEventDetails_resume :: "config \<Rightarrow> json \<Rightarrow> error + response \<Rightarrow> json io" where
  "fetchEventDetails_resume cfg serviceId outcome =
     catch_io
       (bind_io (lift_io outcome) (\<lambda>response.
        lift_io (latestDetails (data response))))
       (log_and_rethrow (''Error fetching event details for service ID '' @ to_string serviceId @ '':''))"

text \<open>
  The destructuring parameter \<open>{ name, id, type }\<close> of the callback. Every service
  that reaches it is an object or a primitive other than \<open>undefined\<close> and \<open>null\<close>,
  since the filter has read its \<open>type\<close>; so the destructuring cannot throw.
\<close>

definition field_of :: "json \<Rightarrow> string \<Rightarrow> json" where
  "field_of v k = (case js_get v k of Inl e \<Rightarrow> JUndef | Inr x \<Rightarrow> x)"

definition detailed :: "json \<Rightarrow> json \<Rightarrow> json" where
  "detailed service details =
     JObj [(''name'', field_of service ''name''), (''id'', field_of service ''id''),
           (''type'', field_of service ''type''), (''details'', details)]"

definition detail_resume :: "config \<Rightarrow> json \<Rightarrow> error + response \<Rightarrow> json io" where
  "detail_resume cfg service outcome =
     catch_io
       (bind_io (fetchEventDetails_resume cfg (field_of service ''id'') outcome) (\<lambda>details.
        return_io (detailed service details)))
       (\<lambda>e. bind_io
          (console_error
             (''Error fetching details for service ID '' @ to_string (field_of service ''id'') @ '':''))
          (\<lambda>_. return_io JNull))"

fun issue_all :: "server \<Rightarrow> request list \<Rightarrow> trace \<Rightarrow> (error + response) list \<times> trace" where
  "issue_all w [] t = ([], t)"
| "issue_all w (r # rs) t =
     (case issue_all w rs (t @ [Call r]) of (outs, t') \<Rightarrow> (answer w r t # outs, t'))"

fun resume_all :: "config \<Rightarrow> (json \<times> (error + response)) list \<Rightarrow> json list io" where
  "resume_all cfg [] = return_io []"
| "resume_all cfg ((service, outcome) # rest) =
     bind_io (detail_resume cfg service outcome) (\<lambda>d.
     bind_io (resume_all cfg rest) (\<lambda>ds.
     return_io (d # ds)))"

definition promise_all_details :: "server \<Rightarrow> config \<Rightarrow> json list \<Rightarrow> json list io" where
  "promise_all_details w cfg services =
     (\<lambda>t. case issue_all w (map (\<lambda>service. eventsRequest cfg (field_of service ''id'')) services) t of
             (outs, t') \<Rightarrow> resume_all cfg (zip services outs) t')"

text \<open>\<open>fetchServices\<close> of the fan-out script.\<close>

definition fetchServices_fanout :: "server \<Rightarrow> config \<Rightarrow> json list io" where
  "fetchServices_fanout w cfg =
     catch_io
       (bind_io (axios_get w cfg (to_string (baseUrl cfg) @ ''/services'')) (\<lambda>response.
        bind_io
          (lift_io
             (bind_err (web_services (data response))
                (map_err (\<lambda>item. js_get item ''service''))))
          (\<lambda>services.
        bind_io (promise_all_details w cfg services) (\<lambda>detailedServices.
        return_io (filter (\<lambda>service. service \<noteq> JNull) detailedServices)))))
       (log_and_rethrow ''Error fetching services:'')"

text \<open>\<open>rebuildDatabase\<close> of the fan-out script.\<close>

definition rebuildDatabase_fanout :: "server \<Rightarrow> config \<Rightarrow> unit io" where
  "rebuildDatabase_fanout w cfg =
     bind_io (console_log ''Rebuilding database...'') (\<lambda>_.
     rebuildSteps w cfg (fetchServices_fanout w cfg) (JStr ''my-db'') (JStr ''DATABASE_URL''))"

section \<open>Vocabulary of the properties\<close>

subsection \<open>The requests of the API\<close>

definition owners_request :: "config \<Rightarrow> request" where
  "owners_request cfg = get_request cfg (to_string (baseUrl cfg) @ ''/owners?limit=1'')"

definition services_request :: "config \<Rightarrow> request" where
  "services_request cfg = get_request cfg (to_string (baseUrl cfg) @ ''/services'')"

definition postgres_request :: "config \<Rightarrow> request" where
  "postgres_request cfg = get_request cfg (to_string (baseUrl cfg) @ ''/postgres'')"

definition delete_postgres_request :: "config \<Rightarrow> json \<Rightarrow> request" where
  "delete_postgres_request cfg databaseId =
     delete_request cfg (to_string (baseUrl cfg) @ ''/postgres/'' @ to_string databaseId)"

definition create_postgres_request :: "config \<Rightarrow> json \<Rightarrow> json \<Rightarrow> request" where
  "create_postgres_request cfg dbName ownerId =
     post_request cfg (to_string (baseUrl cfg) @ ''/postgres'')
       (JObj [(''enableHighAvailability'', JBool False),
              (''plan'', JStr ''free''),
              (''version'', JStr ''16''),
              (''name'', dbName),
              (''ownerId'', ownerId)])"

definition connection_info_request :: "config \<Rightarrow> json \<Rightarrow> request" where
  "connection_info_request cfg databaseId =
     get_request cfg (to_string (baseUrl cfg) @ ''/postgres/'' @ to_string databaseId @ ''/connection-info'')"

definition env_var_request :: "config \<Rightarrow> json \<Rightarrow> json \<Rightarrow> json \<Rightarrow> request" where
  "env_var_request cfg serviceId envKey envValue =
     put_request cfg
       (to_string (baseUrl cfg) @ ''/services/'' @ to_string serviceId @ ''/env-vars/''
          @ to_string envKey)
       (JObj [(''value'', envValue)])"

definition deploy_request :: "config \<Rightarrow> json \<Rightarrow> request" where
  "deploy_request cfg serviceId =
     post_request cfg (to_string (baseUrl cfg) @ ''/services/'' @ to_string serviceId @ ''/deploys'')
       (JObj [(''clearCache'', JStr ''do_not_clear'')])"

text \<open>
  The two requests the loop of the workflow issues for a service id.
\<close>

definition repoint_request :: "config \<Rightarrow> json \<Rightarrow> json \<Rightarrow> json \<Rightarrow> request \<Rightarrow> bool" where
  "repoint_request cfg envKey envValue serviceId r =
     (r = env_var_request cfg serviceId envKey envValue \<or> r = deploy_request cfg serviceId)"

subsection \<open>What an action adds to the trace\<close>

text \<open>
  \<open>emits P m\<close>: from every trace, \<open>m\<close> only appends events, and every request it
  issues satisfies \<open>P\<close>.
\<close>

definition emits :: "(request \<Rightarrow> bool) \<Rightarrow> 'a io \<Rightarrow> bool" where
  "emits P m = (\<forall>t. \<exists>evs. snd (m t) = t @ evs \<and> (\<forall>r. Call r \<in> set evs \<longrightarrow> P r))"

text \<open>
  The two console lines of a failed configuration check.
\<close>

definition missing_report :: "config \<Rightarrow> event list" where
  "missing_report cfg =
     [Log (missing_message (missingVariables cfg)), Log ''Please add them for the script to run...'']"

subsection \<open>Shapes of the responses\<close>

text \<open>
  An item of the services list carries its service under \<open>service\<close>; the API sends
  \<open>{cursor, service}\<close>, so the item has no \<open>id\<close> of its own.
\<close>

definition service_of :: "json \<Rightarrow> json" where
  "service_of item = field_of item ''service''"

definition is_web :: "json \<Rightarrow> bool" where
  "is_web item = (field_of (service_of item) ''type'' = JStr ''web_service'')"

definition has_service :: "json \<Rightarrow> bool" where
  "has_service item =
     (case js_get item ''service'' of Inl e \<Rightarrow> False | Inr s \<Rightarrow> s \<noteq> JUndef \<and> s \<noteq> JNull)"








subsection \<open>The fan-out, by the answers to its requests\<close>

text \<open>
  The services that \<open>fetchServices\<close> of the fan-out script fans out over, the events
  requests it issues for them, the answers to these requests, and what the detail fetch
  of a service settles to given the answer: the enriched service, or \<open>null\<close> when the
  request or the processing of its response fails.
\<close>

definition unwrapped_services :: "json \<Rightarrow> error + json list" where
  "unwrapped_services d = bind_err (web_services d) (map_err (\<lambda>item. js_get item ''service''))"

definition events_requests :: "config \<Rightarrow> json list \<Rightarrow> request list" where
  "events_requests cfg services = map (\<lambda>service. eventsRequest cfg (field_of service ''id'')) services"

definition events_answers :: "server \<Rightarrow> config \<Rightarrow> json list \<Rightarrow> trace \<Rightarrow> (error + response) list" where
  "events_answers w cfg services t = fst (issue_all w (events_requests cfg services) t)"

definition detail_outcome :: "error + response \<Rightarrow> error + json" where
  "detail_outcome outcome = bind_err outcome (\<lambda>response. latestDetails (data response))"

definition detail_failed :: "error + response \<Rightarrow> bool" where
  "detail_failed outcome = isl (detail_outcome outcome)"

definition settled :: "json \<times> (error + response) \<Rightarrow> json" where
  "settled p =
     (case detail_outcome (snd p) of Inl e \<Rightarrow> JNull | Inr details \<Rightarrow> detailed (fst p) details)"

subsection \<open>The latest deploy, in the words of the specification\<close>




subsection \<open>Servers, configurations and responses of concrete runs\<close>

text \<open>
  A server that answers the \<open>n\<close>-th request of the run with the \<open>n\<close>-th entry of a script.
\<close>

definition scripted :: "response option list \<Rightarrow> server" where
  "scripted rs = (\<lambda>h r. if length h < length rs then rs ! length h else None)"

definition ok :: "json \<Rightarrow> response option" where
  "ok d = Some \<lparr>status = 200, data = d\<rparr>"

definition filled_config :: config where
  "filled_config =
     \<lparr>databaseName = JStr ''my-db'', databaseKey = JStr ''DATABASE_URL'',
      baseUrl = JStr ''https://api.render.com/v1'', key = JStr ''secret''\<rparr>"

definition owners_o1 :: json where
  "owners_o1 = JArr [JObj [(''cursor'', JStr ''c0''), (''owner'', JObj [(''id'', JStr ''o1'')])]]"

definition services_s1 :: json where
  "services_s1 =
     JArr [JObj [(''cursor'', JStr ''c1''),
                 (''service'', JObj [(''id'', JStr ''s1''), (''type'', JStr ''web_service'')])]]"

definition postgres_db1 :: json where
  "postgres_db1 = JArr [JObj [(''cursor'', JStr ''c2''), (''postgres'', JObj [(''id'', JStr ''db1'')])]]"

definition three_services :: json where
  "three_services =
     JArr [JObj [(''cursor'', JStr ''c1''),
                 (''service'', JObj [(''id'', JStr ''s1''), (''name'', JStr ''api''), (''type'', JStr ''web_service'')])],
           JObj [(''cursor'', JStr ''c2''),
                 (''service'', JObj [(''id'', JStr ''s2''), (''name'', JStr ''site''), (''type'', JStr ''web_service'')])],
           JObj [(''cursor'', JStr ''c3''),
                 (''service'', JObj [(''id'', JStr ''s3''), (''name'', JStr ''admin''), (''type'', JStr ''web_service'')])]]"

definition mixed_services :: json where
  "mixed_services =
     JArr [JObj [(''cursor'', JStr ''c1''),
                 (''service'', JObj [(''id'', JStr ''s1''), (''name'', JStr ''api''), (''type'', JStr ''web_service'')])],
           JObj [(''cursor'', JStr ''c2''),
                 (''service'', JObj [(''id'', JStr ''s2''), (''name'', JStr ''jobs''), (''type'', JStr ''background_worker'')])],
           JObj [(''cursor'', JStr ''c3''),
                 (''service'', JObj [(''id'', JStr ''s3''), (''name'', JStr ''site''), (''type'', JStr ''web_service'')])]]"





definition owner_missing_script :: "response option list" where
  "owner_missing_script = [Some \<lparr>status = 204, data = JNull\<rparr>, ok services_s1, ok (JArr [])]"

definition delete_unconfirmed_script :: "response option list" where
  "delete_unconfirmed_script = [ok owners_o1, ok services_s1, ok postgres_db1, ok JNull]"

definition delete_unconfirmed_script_fanout :: "response option list" where
  "delete_unconfirmed_script_fanout =
     [ok owners_o1, ok services_s1, ok (JArr []), ok postgres_db1, ok JNull]"

definition empty_list_script :: "response option list" where
  "empty_list_script =
     [ok owners_o1, ok services_s1, ok (JArr []),
      ok (JObj [(''id'', JStr ''db2''), (''name'', JStr ''my-db'')]),
      ok (JObj [(''internalConnectionString'', JStr ''postgres://db2'')]),
      ok (JObj []), ok (JObj [])]"

definition fanout_scenario_script :: "response option list" where
  "fanout_scenario_script =
     [ok owners_o1, ok services_s1, ok (JArr []), ok (JArr []),
      ok (JObj [(''id'', JStr ''db2''), (''name'', JStr ''my-db'')]),
      ok (JObj [(''internalConnectionString'', JStr ''postgres://db2'')]),
      ok (JObj []), ok (JObj [])]"

definition one_failure_script :: "response option list" where
  "one_failure_script = [ok three_services, ok (JArr []), None, ok (JArr [])]"

section \<open>Basic facts\<close>

lemma bind_io_Inr: "m t = (Inr x, t') \<Longrightarrow> bind_io m f t = f x t'"
  by (simp add: bind_io_def)

lemma bind_io_Inl: "m t = (Inl e, t') \<Longrightarrow> bind_io m f t = (Inl e, t')"
  by (simp add: bind_io_def)

lemma catch_io_Inr: "m t = (Inr x, t') \<Longrightarrow> catch_io m h t = (Inr x, t')"
  by (simp add: catch_io_def)

lemma catch_io_Inl: "m t = (Inl e, t') \<Longrightarrow> catch_io m h t = h e t'"
  by (simp add: catch_io_def)

lemmas io_defs = return_io_def throw_io_def lift_io_def bind_io_def catch_io_def
  console_log_def console_error_def log_and_rethrow_def axios_def
  axios_get_def axios_post_def axios_put_def axios_delete_def

lemmas request_defs = owners_request_def services_request_def postgres_request_def
  delete_postgres_request_def create_postgres_request_def connection_info_request_def
  env_var_request_def deploy_request_def

lemma calls_append: "calls (t @ u) = calls t @ calls u"
  by (induction t rule: calls.induct) auto

lemma js_get_field_of: "js_get v k = Inr x \<Longrightarrow> field_of v k = x"
  by (simp add: field_of_def)

section \<open>What each action adds to the trace\<close>

lemma emitsD: "emits P m \<Longrightarrow> \<exists>evs. snd (m t) = t @ evs \<and> (\<forall>r. Call r \<in> set evs \<longrightarrow> P r)"
  by (simp add: emits_def)

lemma emits_return: "emits P (return_io x)"
  by (simp add: emits_def return_io_def)

lemma emits_throw: "emits P (throw_io e)"
  by (simp add: emits_def throw_io_def)

lemma emits_lift: "emits P (lift_io r)"
  by (simp add: emits_def lift_io_def)

lemma emits_console_log: "emits P (console_log m)"
  by (simp add: emits_def console_log_def)

lemma emits_console_error: "emits P (console_error m)"
  by (simp add: emits_def console_error_def)

lemma emits_axios: "P r \<Longrightarrow> emits P (axios w r)"
  by (simp add: emits_def axios_def)

lemma emits_bind:
  assumes "emits P m" and "\<And>x. emits P (f x)"
  shows "emits P (bind_io m f)"
  unfolding emits_def
proof
  fix t
  obtain evs where m: "snd (m t) = t @ evs" "\<forall>r. Call r \<in> set evs \<longrightarrow> P r"
    using emitsD [OF assms(1)] by blast
  show "\<exists>evs. snd (bind_io m f t) = t @ evs \<and> (\<forall>r. Call r \<in> set evs \<longrightarrow> P r)"
  proof (cases "fst (m t)")
    case (Inl e)
    then have "m t = (Inl e, t @ evs)"
      using m(1) by (metis prod.collapse)
    then have "bind_io m f t = (Inl e, t @ evs)"
      by (rule bind_io_Inl)
    then show ?thesis using m(2) by auto
  next
    case (Inr x)
    then have "m t = (Inr x, t @ evs)"
      using m(1) by (metis prod.collapse)
    then have eq: "bind_io m f t = f x (t @ evs)"
      by (rule bind_io_Inr)
    obtain evs' where f: "snd (f x (t @ evs)) = (t @ evs) @ evs'" "\<forall>r. Call r \<in> set evs' \<longrightarrow> P r"
      using emitsD [OF assms(2)] by blast
    have "snd (bind_io m f t) = t @ (evs @ evs')" using eq f(1) by simp
    moreover have "\<forall>r. Call r \<in> set (evs @ evs') \<longrightarrow> P r" using m(2) f(2) by auto
    ultimately show ?thesis by blast
  qed
qed

lemma emits_catch:
  assumes "emits P m" and "\<And>e. emits P (h e)"
  shows "emits P (catch_io m h)"
  unfolding emits_def
proof
  fix t
  obtain evs where m: "snd (m t) = t @ evs" "\<forall>r. Call r \<in> set evs \<longrightarrow> P r"
    using emitsD [OF assms(1)] by blast
  show "\<exists>evs. snd (catch_io m h t) = t @ evs \<and> (\<forall>r. Call r \<in> set evs \<longrightarrow> P r)"
  proof (cases "fst (m t)")
    case (Inr x)
    then have "m t = (Inr x, t @ evs)"
      using m(1) by (metis prod.collapse)
    then have "catch_io m h t = (Inr x, t @ evs)"
      by (rule catch_io_Inr)
    then show ?thesis using m(2) by auto
  next
    case (Inl e)
    then have "m t = (Inl e, t @ evs)"
      using m(1) by (metis prod.collapse)
    then have eq: "catch_io m h t = h e (t @ evs)"
      by (rule catch_io_Inl)
    obtain evs' where f: "snd (h e (t @ evs)) = (t @ evs) @ evs'" "\<forall>r. Call r \<in> set evs' \<longrightarrow> P r"
      using emitsD [OF assms(2)] by blast
    have "snd (catch_io m h t) = t @ (evs @ evs')" using eq f(1) by simp
    moreover have "\<forall>r. Call r \<in> set (evs @ evs') \<longrightarrow> P r" using m(2) f(2) by auto
    ultimately show ?thesis by blast
  qed
qed

lemma emits_if: "emits P m \<Longrightarrow> emits P n \<Longrightarrow> emits P (if b then m else n)"
  by simp

lemma emits_rethrow: "emits P (log_and_rethrow m e)"
  unfolding log_and_rethrow_def by (intro emits_bind emits_console_error emits_throw)

lemmas emits_intros = emits_bind emits_catch emits_if emits_return emits_throw emits_lift
  emits_console_log emits_console_error emits_rethrow

lemma emits_fetchOwner: "emits (\<lambda>r. meth r = GET) (fetchOwner w cfg)"
  unfolding fetchOwner_def axios_get_def
  by (intro emits_intros emits_axios) (simp add: get_request_def)

lemma emits_fetchServices: "emits (\<lambda>r. meth r = GET) (fetchServices w cfg)"
  unfolding fetchServices_def axios_get_def
  by (intro emits_intros emits_axios) (simp add: get_request_def)

lemma emits_fetchDatabase: "emits (\<lambda>r. meth r = GET) (fetchDatabase w cfg)"
  unfolding fetchDatabase_def axios_get_def
  by (intro emits_intros emits_axios) (simp add: get_request_def)

lemma emits_fetchConnectionInfo: "emits (\<lambda>r. meth r = GET) (fetchConnectionInfo w cfg i)"
  unfolding fetchConnectionInfo_def axios_get_def
  by (intro emits_intros emits_axios) (simp add: get_request_def)

lemma emits_createDatabase: "emits (\<lambda>r. meth r = POST) (createDatabase w cfg n i)"
  unfolding createDatabase_def axios_post_def
  by (intro emits_intros emits_axios) (simp add: post_request_def)

lemma emits_deployService:
  "emits (\<lambda>r. r = deploy_request cfg i) (deployService w cfg i)"
  unfolding deployService_def axios_post_def deploy_request_def
  by (intro emits_intros emits_axios) simp

lemma emits_updateEnvVariable:
  "emits (\<lambda>r. r = env_var_request cfg i k v) (updateEnvVariable w cfg i k v)"
  unfolding updateEnvVariable_def axios_put_def env_var_request_def
  by (intro emits_intros emits_axios) simp

lemma emits_mono: "emits P m \<Longrightarrow> (\<And>r. P r \<Longrightarrow> Q r) \<Longrightarrow> emits Q m"
  unfolding emits_def by blast


lemma emits_bind_lift:
  assumes "\<And>x. r = Inr x \<Longrightarrow> emits P (f x)"
  shows "emits P (bind_io (lift_io r) f)"
proof (cases r)
  case (Inl e)
  then have "bind_io (lift_io r) f = throw_io e"
    by (simp add: bind_io_def lift_io_def throw_io_def)
  then show ?thesis by (simp add: emits_throw)
next
  case (Inr x)
  then have "bind_io (lift_io r) f = f x"
    by (simp add: bind_io_def lift_io_def)
  then show ?thesis using assms [OF Inr] by simp
qed

lemma emits_repointServices:
  "emits (\<lambda>r. \<exists>service \<in> set services. repoint_request cfg envKey envValue (field_of service ''id'') r)
     (repointServices w cfg envKey envValue services)"
proof (induction services)
  case Nil
  show ?case by (simp add: emits_return)
next
  case (Cons service rest)
  let ?P = "\<lambda>r. \<exists>s \<in> set (service # rest). repoint_request cfg envKey envValue (field_of s ''id'') r"
  have rest: "emits ?P (repointServices w cfg envKey envValue rest)"
    by (rule emits_mono [OF Cons.IH]) auto
  have put: "emits ?P (updateEnvVariable w cfg (field_of service ''id'') envKey envValue)"
    by (rule emits_mono [OF emits_updateEnvVariable]) (simp add: repoint_request_def)
  have post: "emits ?P (deployService w cfg (field_of service ''id''))"
    by (rule emits_mono [OF emits_deployService]) (simp add: repoint_request_def)
  have deploy: "emits ?P (bind_io (deployService w cfg (field_of service ''id''))
      (\<lambda>_. repointServices w cfg envKey envValue rest))"
    by (intro emits_bind post rest)
  have second: "emits ?P (bind_io (lift_io (js_get service ''id'')) (\<lambda>serviceId'.
      bind_io (deployService w cfg serviceId') (\<lambda>_. repointServices w cfg envKey envValue rest)))"
  proof (rule emits_bind_lift)
    fix x assume "js_get service ''id'' = Inr x"
    then have "x = field_of service ''id''" by (simp add: field_of_def)
    then show "emits ?P (bind_io (deployService w cfg x)
        (\<lambda>_. repointServices w cfg envKey envValue rest))"
      using deploy by simp
  qed
  have "emits ?P (bind_io (lift_io (js_get service ''id'')) (\<lambda>serviceId.
      bind_io (updateEnvVariable w cfg serviceId envKey envValue) (\<lambda>_.
      bind_io (lift_io (js_get service ''id'')) (\<lambda>serviceId'.
      bind_io (deployService w cfg serviceId') (\<lambda>_.
      repointServices w cfg envKey envValue rest)))))"
  proof (rule emits_bind_lift)
    fix x assume "js_get service ''id'' = Inr x"
    then have "x = field_of service ''id''" by (simp add: field_of_def)
    then show "emits ?P (bind_io (updateEnvVariable w cfg x envKey envValue) (\<lambda>_.
      bind_io (lift_io (js_get service ''id'')) (\<lambda>serviceId'.
      bind_io (deployService w cfg serviceId') (\<lambda>_.
      repointServices w cfg envKey envValue rest))))"
      using put second by (simp add: emits_bind)
  qed
  then show ?case by simp
qed

lemma repoint_request_not_delete: "repoint_request cfg k v i r \<Longrightarrow> meth r \<noteq> DELETE"
  by (auto simp add: repoint_request_def env_var_request_def deploy_request_def put_request_def post_request_def)

lemma emits_createAndRepoint:
  "emits (\<lambda>r. meth r \<noteq> DELETE) (createAndRepoint w cfg dbName envKey owner services)"
  unfolding createAndRepoint_def
  apply (intro emits_bind emits_lift emits_console_log)
    apply (rule emits_mono [OF emits_createDatabase], simp)
   apply (rule emits_mono [OF emits_fetchConnectionInfo], simp)
  apply (rule emits_mono [OF emits_repointServices])
  apply (auto dest: repoint_request_not_delete)
  done

section \<open>Properties of the scripts\<close>

text \<open>
  Claim C10. When the owners request is answered with status 200 and an empty array,
  \<open>fetchOwner\<close> throws: \<open>response.data[0]\<close> is \<open>undefined\<close>, destructuring it
  raises a TypeError, which the catch block logs and re-throws. The result is the thrown
  error, not the value \<open>undefined\<close>; the branch that returns nothing is the one taken
  on a status other than 200 (claim C7).
\<close>

theorem fetchOwner_empty_200_throws:
  assumes "answer w (owners_request cfg) t = Inr r"
    and "status r = 200"
    and "data r = JArr []"
  shows "fetchOwner w cfg t =
           (Inl TypeError, t @ [Call (owners_request cfg), LogError ''Error fetching owner:''])"
  using assms by (simp add: fetchOwner_def io_defs bind_err_def owners_request_def)

text \<open>
  Claim C10, at a concrete run: the first request is answered with status 200 and \<open>[]\<close>.
\<close>

theorem fetchOwner_empty_200_throws_witness:
  "answer (scripted [ok (JArr [])]) (owners_request filled_config) [] = Inr \<lparr>status = 200, data = JArr []\<rparr>
   \<and> fetchOwner (scripted [ok (JArr [])]) filled_config [] =
       (Inl TypeError, [Call (owners_request filled_config), LogError ''Error fetching owner:''])"
  using fetchOwner_empty_200_throws
    [of "scripted [ok (JArr [])]" filled_config "[]" "\<lparr>status = 200, data = JArr []\<rparr>"]
  by (simp add: answer_def scripted_def ok_def)

lemma missing_nonempty:
  "\<not> truthy (databaseName cfg) \<or> \<not> truthy (databaseKey cfg) \<or> \<not> truthy (baseUrl cfg) \<or> \<not> truthy (key cfg)
   \<Longrightarrow> missingVariables cfg \<noteq> []"
  by (auto simp add: missingVariables_def)

text \<open>
  Claim C4. In the two scripts that validate the configuration (\<open>runScript\<close> of the
  interactive script, \<open>rebuildDatabase\<close> of the module script), when any of the database
  name, the environment key, the base URL and the API key is unset (falsy), the run ends
  after two console lines that name the missing variables, and issues no request.
\<close>

theorem unset_configuration_aborts:
  assumes "\<not> truthy (databaseName cfg) \<or> \<not> truthy (databaseKey cfg)
         \<or> \<not> truthy (baseUrl cfg) \<or> \<not> truthy (key cfg)"
  shows "runScript w cfg t = (Inr (), t @ missing_report cfg)
       \<and> rebuildDatabase_module w cfg t = (Inr (), t @ missing_report cfg)
       \<and> calls (t @ missing_report cfg) = calls t"
  using missing_nonempty [OF assms]
  by (simp add: runScript_def rebuildDatabase_module_def validateVariables_def io_defs
      missing_report_def calls_append)

text \<open>
  Claim C4, at a concrete configuration: the environment key is \<open>null\<close>.
\<close>

theorem unset_configuration_aborts_witness:
  "\<not> truthy (databaseKey (filled_config\<lparr>databaseKey := JNull\<rparr>))
   \<and> runScript (scripted []) (filled_config\<lparr>databaseKey := JNull\<rparr>) [] =
     (Inr (), [Log (''The following variables still don'' @ [CHR 0x27] @ ''t have a value: databaseKey''),
               Log ''Please add them for the script to run...''])
   \<and> rebuildDatabase_module (scripted []) (filled_config\<lparr>databaseKey := JNull\<rparr>) [] =
     (Inr (), [Log (''The following variables still don'' @ [CHR 0x27] @ ''t have a value: databaseKey''),
               Log ''Please add them for the script to run...''])"
proof -
  have unset: "\<not> truthy (databaseKey (filled_config\<lparr>databaseKey := JNull\<rparr>))"
    by simp
  then have "\<not> truthy (databaseName (filled_config\<lparr>databaseKey := JNull\<rparr>))
      \<or> \<not> truthy (databaseKey (filled_config\<lparr>databaseKey := JNull\<rparr>))
      \<or> \<not> truthy (baseUrl (filled_config\<lparr>databaseKey := JNull\<rparr>))
      \<or> \<not> truthy (key (filled_config\<lparr>databaseKey := JNull\<rparr>))"
    by blast
  from unset_configuration_aborts [OF this, of "scripted []" "[]"] unset
  show ?thesis
    by (simp add: filled_config_def missing_report_def missing_message_def missingVariables_def)
qed

lemma isEmpty_False_get: "isEmpty v = Inr b \<Longrightarrow> js_get v k = Inr (field_of v k)"
  by (cases v) (simp_all add: isEmpty_def bind_err_def field_of_def)

lemma deleteDatabase_answered:
  "answer w (delete_postgres_request cfg i) t = Inr resp \<Longrightarrow>
   deleteDatabase w cfg i t = (Inr resp, t @ [Call (delete_postgres_request cfg i)])"
  by (simp add: deleteDatabase_def io_defs delete_postgres_request_def)

lemma rebuildSteps_delete_unconfirmed:
  assumes "fetchOwner w cfg t = (Inr owner, t1)"
    and "fetchSvcs t1 = (Inr services, t2)"
    and "fetchDatabase w cfg t2 = (Inr database, t3)"
    and "isEmpty database = Inr False"
    and "answer w (delete_postgres_request cfg (field_of database ''id'')) t3 = Inr resp"
    and "status resp \<noteq> 204"
  shows "rebuildSteps w cfg fetchSvcs dbName envKey t =
           (Inr (), t3 @ [Call (delete_postgres_request cfg (field_of database ''id'')),
                          LogError ''Failed to delete existing database.''])"
proof -
  have get: "js_get database ''id'' = Inr (field_of database ''id'')"
    using assms(4) by (rule isEmpty_False_get)
  show ?thesis
    unfolding rebuildSteps_def
    by (simp add: assms(1-4) assms(6) get deleteDatabase_answered [OF assms(5)]
        catch_io_def bind_io_def lift_io_def console_error_def)
qed

lemmas example_defs = owners_o1_def services_s1_def postgres_db1_def filled_config_def ok_def
  scripted_def answer_def

text \<open>
  Claim C1. In a run of \<open>rebuildDatabase\<close> (interactive and fan-out scripts) where the
  fetched database is not empty and the delete request is answered with a status other
  than 204, the run ends right after the delete request with the console line
  \<open>Failed to delete existing database.\<close>: nothing follows the delete, so no database is
  created, no environment variable is updated and no service is deployed.
\<close>

theorem delete_unconfirmed_aborts:
  assumes "fetchDatabase w cfg t2 = (Inr database, t3)"
    and "isEmpty database = Inr False"
    and "answer w (delete_postgres_request cfg (field_of database ''id'')) t3 = Inr resp"
    and "status resp \<noteq> 204"
    and "fetchOwner w cfg (t @ [Log ''Rebuilding database...'']) = (Inr owner, t1)"
  shows "(fetchServices w cfg t1 = (Inr services, t2) \<longrightarrow>
          rebuildDatabase w cfg t =
            (Inr (), t3 @ [Call (delete_postgres_request cfg (field_of database ''id'')),
                           LogError ''Failed to delete existing database.'']))
       \<and> (fetchServices_fanout w cfg t1 = (Inr services, t2) \<longrightarrow>
          rebuildDatabase_fanout w cfg t =
            (Inr (), t3 @ [Call (delete_postgres_request cfg (field_of database ''id'')),
                           LogError ''Failed to delete existing database.'']))"
  using rebuildSteps_delete_unconfirmed [OF assms(5) _ assms(1-4)]
  by (simp add: rebuildDatabase_def rebuildDatabase_fanout_def bind_io_def console_log_def)

lemmas run_defs = fetchOwner_def fetchServices_def fetchDatabase_def fetchServices_fanout_def
  io_defs bind_err_def web_services_def is_web_service_def promise_all_details_def field_of_def
  detail_resume_def fetchEventDetails_resume_def latestDetails_def detailed_def isEmpty_def
  request_defs eventsRequest_def

text \<open>
  Claim C1, at concrete runs of both scripts: a database \<open>db1\<close> exists and the delete
  request is answered with status 200.
\<close>

theorem delete_unconfirmed_aborts_witness:
  "rebuildDatabase (scripted delete_unconfirmed_script) filled_config [] =
     (Inr (),
      [Log ''Rebuilding database...'',
       Call (owners_request filled_config),
       Call (services_request filled_config),
       Call (postgres_request filled_config),
       Call (delete_postgres_request filled_config (JStr ''db1'')),
       LogError ''Failed to delete existing database.''])
   \<and> rebuildDatabase_fanout (scripted delete_unconfirmed_script_fanout) filled_config [] =
     (Inr (),
      [Log ''Rebuilding database...'',
       Call (owners_request filled_config),
       Call (services_request filled_config),
       Call (eventsRequest filled_config (JStr ''s1'')),
       Call (postgres_request filled_config),
       Call (delete_postgres_request filled_config (JStr ''db1'')),
       LogError ''Failed to delete existing database.''])"
proof -
  let ?w = "scripted delete_unconfirmed_script"
  let ?t1 = "[Log ''Rebuilding database...'', Call (owners_request filled_config)]"
  let ?t2 = "?t1 @ [Call (services_request filled_config)]"
  let ?t3 = "?t2 @ [Call (postgres_request filled_config)]"
  let ?db = "JObj [(''id'', JStr ''db1'')]"
  let ?resp = "\<lparr>status = 200, data = JNull\<rparr>"
  have owner: "fetchOwner ?w filled_config ([] @ [Log ''Rebuilding database...''])
      = (Inr (JObj [(''id'', JStr ''o1'')]), ?t1)"
    by (simp add: run_defs example_defs delete_unconfirmed_script_def)
  have svcs: "fetchServices ?w filled_config ?t1
      = (Inr [JObj [(''cursor'', JStr ''c1''),
                    (''service'', JObj [(''id'', JStr ''s1''), (''type'', JStr ''web_service'')])]], ?t2)"
    by (simp add: run_defs example_defs delete_unconfirmed_script_def)
  have db: "fetchDatabase ?w filled_config ?t2 = (Inr ?db, ?t3)"
    by (simp add: run_defs example_defs delete_unconfirmed_script_def)
  have nonempty: "isEmpty ?db = Inr False"
    by (simp add: run_defs)
  have del: "answer ?w (delete_postgres_request filled_config (field_of ?db ''id'')) ?t3 = Inr ?resp"
    by (simp add: run_defs example_defs delete_unconfirmed_script_def)
  have st: "status ?resp \<noteq> 204" by simp
  have first: "rebuildDatabase ?w filled_config [] =
     (Inr (), ?t3 @ [Call (delete_postgres_request filled_config (field_of ?db ''id'')),
                     LogError ''Failed to delete existing database.''])"
    using delete_unconfirmed_aborts [OF db nonempty del st owner] svcs by blast
  let ?w' = "scripted delete_unconfirmed_script_fanout"
  let ?u2 = "?t1 @ [Call (services_request filled_config), Call (eventsRequest filled_config (JStr ''s1''))]"
  let ?u3 = "?u2 @ [Call (postgres_request filled_config)]"
  have owner': "fetchOwner ?w' filled_config ([] @ [Log ''Rebuilding database...''])
      = (Inr (JObj [(''id'', JStr ''o1'')]), ?t1)"
    by (simp add: run_defs example_defs delete_unconfirmed_script_fanout_def)
  have svcs': "fetchServices_fanout ?w' filled_config ?t1
      = (Inr [JObj [(''name'', JUndef), (''id'', JStr ''s1''), (''type'', JStr ''web_service''),
                    (''details'', JObj [])]], ?u2)"
    by (simp add: run_defs example_defs delete_unconfirmed_script_fanout_def)
  have db': "fetchDatabase ?w' filled_config ?u2 = (Inr ?db, ?u3)"
    by (simp add: run_defs example_defs delete_unconfirmed_script_fanout_def)
  have del': "answer ?w' (delete_postgres_request filled_config (field_of ?db ''id'')) ?u3 = Inr ?resp"
    by (simp add: run_defs example_defs delete_unconfirmed_script_fanout_def)
  have second: "rebuildDatabase_fanout ?w' filled_config [] =
     (Inr (), ?u3 @ [Call (delete_postgres_request filled_config (field_of ?db ''id'')),
                     LogError ''Failed to delete existing database.''])"
    using delete_unconfirmed_aborts [OF db' nonempty del' st owner'] svcs' by blast
  have "field_of ?db ''id'' = JStr ''db1''" by (simp add: field_of_def)
  with first second show ?thesis by simp
qed

lemma fetchDatabase_empty_list:
  "answer w (postgres_request cfg) t = Inr r \<Longrightarrow> data r = JArr [] \<Longrightarrow>
   fetchDatabase w cfg t = (Inr (JObj []), t @ [Call (postgres_request cfg)])"
  by (simp add: fetchDatabase_def io_defs bind_err_def postgres_request_def)

lemma rebuildSteps_no_database:
  assumes "fetchOwner w cfg t = (Inr owner, t1)"
    and "fetchSvcs t1 = (Inr services, t2)"
    and "fetchDatabase w cfg t2 = (Inr database, t3)"
    and "isEmpty database = Inr True"
  shows "rebuildSteps w cfg fetchSvcs dbName envKey t =
           catch_io (createAndRepoint w cfg dbName envKey owner services)
             (\<lambda>e. console_error ''Error during database rebuild:'') t3"
  unfolding rebuildSteps_def
  by (simp add: assms catch_io_def bind_io_def lift_io_def split: prod.splits sum.splits)

lemma createDatabase_first_call:
  "\<exists>l. snd (createDatabase w cfg n i t) = t @ Call (create_postgres_request cfg n i) # l"
  by (cases "answer w (create_postgres_request cfg n i) t")
     (simp_all add: createDatabase_def io_defs create_postgres_request_def)

lemma bind_io_first_call:
  assumes "\<exists>l. snd (m t) = t @ Call r # l" and "\<And>x. emits Q (f x)"
  shows "\<exists>rest. snd (bind_io m f t) = t @ Call r # rest"
proof -
  obtain l where l: "snd (m t) = t @ Call r # l" using assms(1) by blast
  show ?thesis
  proof (cases "fst (m t)")
    case (Inl e)
    then have "m t = (Inl e, t @ Call r # l)" using l by (metis prod.collapse)
    then have "bind_io m f t = (Inl e, t @ Call r # l)" by (rule bind_io_Inl)
    then show ?thesis by simp
  next
    case (Inr x)
    then have "m t = (Inr x, t @ Call r # l)" using l by (metis prod.collapse)
    then have eq: "bind_io m f t = f x (t @ Call r # l)" by (rule bind_io_Inr)
    obtain evs where "snd (f x (t @ Call r # l)) = (t @ Call r # l) @ evs"
      using emitsD [OF assms(2)] by blast
    with eq show ?thesis by simp
  qed
qed

lemma bind_io_lift_Inr: "bind_io (lift_io (Inr x)) f = f x"
  by (simp add: bind_io_def lift_io_def)

lemma createAndRepoint_first_call:
  assumes "js_get owner ''id'' = Inr ownerId"
  shows "\<exists>rest. snd (createAndRepoint w cfg dbName envKey owner services t) =
           t @ Call (create_postgres_request cfg dbName ownerId) # rest"
  unfolding createAndRepoint_def
  apply (simp only: assms bind_io_lift_Inr)
  apply (rule bind_io_first_call [where Q = "\<lambda>r. meth r \<noteq> DELETE"])
   apply (rule createDatabase_first_call)
  apply (intro emits_bind emits_lift emits_console_log)
   apply (rule emits_mono [OF emits_fetchConnectionInfo], simp)
  apply (rule emits_mono [OF emits_repointServices])
  apply (auto dest: repoint_request_not_delete)
  done

lemma catch_log_first_call:
  assumes "\<exists>l. snd (m t) = t @ Call r # l"
  shows "\<exists>rest. snd (catch_io m (\<lambda>e. console_error msg) t) = t @ Call r # rest"
proof -
  obtain l where l: "snd (m t) = t @ Call r # l" using assms by blast
  show ?thesis
  proof (cases "fst (m t)")
    case (Inl e)
    then have "m t = (Inl e, t @ Call r # l)" using l by (metis prod.collapse)
    then have "catch_io m (\<lambda>e. console_error msg) t = console_error msg (t @ Call r # l)"
      by (rule catch_io_Inl)
    then show ?thesis by (simp add: console_error_def)
  next
    case (Inr x)
    then have "m t = (Inr x, t @ Call r # l)" using l by (metis prod.collapse)
    then have "catch_io m (\<lambda>e. console_error msg) t = (Inr x, t @ Call r # l)"
      by (rule catch_io_Inr)
    then show ?thesis by simp
  qed
qed

text \<open>
  Claim C7. When the owners request is answered (axios does not throw) with a status
  other than 200, \<open>fetchOwner\<close> returns \<open>undefined\<close>: no error, no console line, one
  request. The missing owner shows only when the workflow reads \<open>owner.id\<close> for
  \<open>createDatabase\<close>: with the owner \<open>undefined\<close> that step throws a TypeError before it
  issues any request. So a run whose services and database fetches succeed and find no
  database ends, after these fetches, with the console line of the top-level catch.
\<close>

theorem fetchOwner_non_200_undefined:
  assumes "answer w (owners_request cfg) t = Inr r"
    and "status r \<noteq> 200"
  shows "fetchOwner w cfg t = (Inr JUndef, t @ [Call (owners_request cfg)])
       \<and> createAndRepoint w cfg dbName envKey JUndef services t' = (Inl TypeError, t')
       \<and> (fetchSvcs (t @ [Call (owners_request cfg)]) = (Inr services, t2)
            \<and> fetchDatabase w cfg t2 = (Inr database, t3)
            \<and> isEmpty database = Inr True \<longrightarrow>
          rebuildSteps w cfg fetchSvcs dbName envKey t =
            (Inr (), t3 @ [LogError ''Error during database rebuild:'']))"
proof -
  have owner: "fetchOwner w cfg t = (Inr JUndef, t @ [Call (owners_request cfg)])"
    using assms by (simp add: fetchOwner_def io_defs owners_request_def)
  have throws: "createAndRepoint w cfg dbName envKey JUndef services u = (Inl TypeError, u)" for u
    by (simp add: createAndRepoint_def io_defs)
  have "rebuildSteps w cfg fetchSvcs dbName envKey t =
      (Inr (), t3 @ [LogError ''Error during database rebuild:''])"
    if "fetchSvcs (t @ [Call (owners_request cfg)]) = (Inr services, t2)"
      and "fetchDatabase w cfg t2 = (Inr database, t3)"
      and "isEmpty database = Inr True"
    using owner that throws [of t3]
    by (simp add: rebuildSteps_def catch_io_def bind_io_def lift_io_def console_error_def)
  with owner throws show ?thesis by blast
qed

text \<open>
  Claim C7, at a concrete run of the interactive script: the owners request is answered
  with status 204, one web service, no database.
\<close>

theorem fetchOwner_non_200_undefined_witness:
  "fetchOwner (scripted owner_missing_script) filled_config [Log ''Rebuilding database...''] =
     (Inr JUndef, [Log ''Rebuilding database...'', Call (owners_request filled_config)])
   \<and> rebuildDatabase (scripted owner_missing_script) filled_config [] =
     (Inr (),
      [Log ''Rebuilding database...'',
       Call (owners_request filled_config),
       Call (services_request filled_config),
       Call (postgres_request filled_config),
       LogError ''Error during database rebuild:''])"
proof -
  let ?w = "scripted owner_missing_script"
  let ?t = "[Log ''Rebuilding database...'']"
  let ?t2 = "?t @ [Call (owners_request filled_config), Call (services_request filled_config)]"
  let ?t3 = "?t2 @ [Call (postgres_request filled_config)]"
  let ?resp = "\<lparr>status = 204, data = JNull\<rparr>"
  let ?services = "[JObj [(''cursor'', JStr ''c1''),
                     (''service'', JObj [(''id'', JStr ''s1''), (''type'', JStr ''web_service'')])]]"
  have ans: "answer ?w (owners_request filled_config) ?t = Inr ?resp"
    by (simp add: answer_def scripted_def owner_missing_script_def)
  have st: "status ?resp \<noteq> 200" by simp
  have svcs: "fetchServices ?w filled_config (?t @ [Call (owners_request filled_config)])
      = (Inr ?services, ?t2)"
    by (simp add: run_defs example_defs owner_missing_script_def)
  have db: "fetchDatabase ?w filled_config ?t2 = (Inr (JObj []), ?t3)"
    by (simp add: run_defs example_defs owner_missing_script_def)
  have empty: "isEmpty (JObj []) = Inr True"
    by (simp add: run_defs)
  note claim = fetchOwner_non_200_undefined [OF ans st,
      of "databaseName filled_config" "databaseKey filled_config" ?services ?t3
         "fetchServices ?w filled_config" ?t2 "JObj []" ?t3]
  from claim svcs db empty
  have "rebuildSteps ?w filled_config (fetchServices ?w filled_config)
          (databaseName filled_config) (databaseKey filled_config) ?t =
        (Inr (), ?t3 @ [LogError ''Error during database rebuild:''])"
    by blast
  then have "rebuildDatabase ?w filled_config [] =
      (Inr (), ?t3 @ [LogError ''Error during database rebuild:''])"
    by (simp add: rebuildDatabase_def bind_io_def console_log_def)
  with claim show ?thesis by simp
qed

text \<open>
  Claim C2. In a run of \<open>rebuildDatabase\<close> where the database list is answered with an
  empty array, \<open>fetchDatabase\<close> returns the empty object, the run issues no DELETE
  request at all, and (when the owner's id can be read) the request that follows the
  database fetch is the one that creates the new database.
\<close>

theorem empty_database_list_skips_delete:
  assumes owner: "fetchOwner w cfg (t @ [Log ''Rebuilding database...'']) = (Inr owner, t1)"
    and svcs: "fetchServices w cfg t1 = (Inr services, t2)"
    and ans: "answer w (postgres_request cfg) t2 = Inr r"
    and empty: "data r = JArr []"
  shows "fetchDatabase w cfg t2 = (Inr (JObj []), t2 @ [Call (postgres_request cfg)])
       \<and> (\<exists>evs. snd (rebuildDatabase w cfg t) = t @ evs
                \<and> (\<forall>q. Call q \<in> set evs \<longrightarrow> meth q \<noteq> DELETE))
       \<and> (\<forall>ownerId. js_get owner ''id'' = Inr ownerId \<longrightarrow>
            (\<exists>rest. snd (rebuildDatabase w cfg t) =
               t2 @ Call (postgres_request cfg)
                  # Call (create_postgres_request cfg (databaseName cfg) ownerId) # rest))"
proof -
  let ?t3 = "t2 @ [Call (postgres_request cfg)]"
  let ?rest = "catch_io (createAndRepoint w cfg (databaseName cfg) (databaseKey cfg) owner services)
                 (\<lambda>e. console_error ''Error during database rebuild:'')"
  have db: "fetchDatabase w cfg t2 = (Inr (JObj []), ?t3)"
    using ans empty by (rule fetchDatabase_empty_list)
  have "isEmpty (JObj []) = Inr True"
    by (simp add: isEmpty_def bind_err_def)
  then have "rebuildSteps w cfg (fetchServices w cfg) (databaseName cfg) (databaseKey cfg)
               (t @ [Log ''Rebuilding database...'']) = ?rest ?t3"
    using owner svcs db by (rule rebuildSteps_no_database [rotated 3])
  then have run: "rebuildDatabase w cfg t = ?rest ?t3"
    by (simp add: rebuildDatabase_def bind_io_def console_log_def)
  obtain e1 where e1: "t1 = (t @ [Log ''Rebuilding database...'']) @ e1"
      "\<forall>q. Call q \<in> set e1 \<longrightarrow> meth q = GET"
    using emitsD [OF emits_fetchOwner, of w cfg "t @ [Log ''Rebuilding database...'']"] owner
    by auto
  obtain e2 where e2: "t2 = t1 @ e2" "\<forall>q. Call q \<in> set e2 \<longrightarrow> meth q = GET"
    using emitsD [OF emits_fetchServices, of w cfg t1] svcs by auto
  have "emits (\<lambda>q. meth q \<noteq> DELETE) ?rest"
    by (intro emits_catch emits_createAndRepoint emits_console_error)
  then obtain e3 where e3: "snd (?rest ?t3) = ?t3 @ e3" "\<forall>q. Call q \<in> set e3 \<longrightarrow> meth q \<noteq> DELETE"
    using emitsD by blast
  let ?evs = "[Log ''Rebuilding database...''] @ e1 @ e2 @ [Call (postgres_request cfg)] @ e3"
  have "snd (rebuildDatabase w cfg t) = t @ ?evs"
    using run e1(1) e2(1) e3(1) by simp
  moreover have "\<forall>q. Call q \<in> set ?evs \<longrightarrow> meth q \<noteq> DELETE"
    using e1(2) e2(2) e3(2) by (auto simp add: postgres_request_def get_request_def)
  ultimately have no_delete: "\<exists>evs. snd (rebuildDatabase w cfg t) = t @ evs
      \<and> (\<forall>q. Call q \<in> set evs \<longrightarrow> meth q \<noteq> DELETE)"
    by blast
  have create: "\<exists>rest. snd (rebuildDatabase w cfg t) =
      t2 @ Call (postgres_request cfg)
         # Call (create_postgres_request cfg (databaseName cfg) ownerId) # rest"
    if "js_get owner ''id'' = Inr ownerId" for ownerId
  proof -
    have "\<exists>rest. snd (?rest ?t3) =
        ?t3 @ Call (create_postgres_request cfg (databaseName cfg) ownerId) # rest"
      by (rule catch_log_first_call) (rule createAndRepoint_first_call [OF that])
    then show ?thesis using run by simp
  qed
  from db no_delete create show ?thesis by blast
qed

text \<open>
  Claim C2, at a concrete run: owner \<open>o1\<close>, one web service, no database.
\<close>

theorem empty_database_list_skips_delete_witness:
  "fetchDatabase (scripted empty_list_script) filled_config
     [Log ''Rebuilding database...'', Call (owners_request filled_config),
      Call (services_request filled_config)]
   = (Inr (JObj []),
      [Log ''Rebuilding database...'', Call (owners_request filled_config),
       Call (services_request filled_config), Call (postgres_request filled_config)])
   \<and> (\<exists>rest. snd (rebuildDatabase (scripted empty_list_script) filled_config []) =
         [Log ''Rebuilding database...'', Call (owners_request filled_config),
          Call (services_request filled_config), Call (postgres_request filled_config),
          Call (create_postgres_request filled_config (JStr ''my-db'') (JStr ''o1''))] @ rest)"
proof -
  let ?w = "scripted empty_list_script"
  let ?t1 = "[Log ''Rebuilding database...'', Call (owners_request filled_config)]"
  let ?t2 = "?t1 @ [Call (services_request filled_config)]"
  let ?owner = "JObj [(''id'', JStr ''o1'')]"
  have owner: "fetchOwner ?w filled_config ([] @ [Log ''Rebuilding database...'']) = (Inr ?owner, ?t1)"
    by (simp add: run_defs example_defs empty_list_script_def)
  have svcs: "fetchServices ?w filled_config ?t1
      = (Inr [JObj [(''cursor'', JStr ''c1''),
                    (''service'', JObj [(''id'', JStr ''s1''), (''type'', JStr ''web_service'')])]], ?t2)"
    by (simp add: run_defs example_defs empty_list_script_def)
  have ans: "answer ?w (postgres_request filled_config) ?t2 = Inr \<lparr>status = 200, data = JArr []\<rparr>"
    by (simp add: run_defs example_defs empty_list_script_def)
  have empty: "data \<lparr>status = 200, data = JArr []\<rparr> = JArr []" by simp
  have oid: "js_get ?owner ''id'' = Inr (JStr ''o1'')" by simp
  have name: "databaseName filled_config = JStr ''my-db''" by (simp add: filled_config_def)
  from empty_database_list_skips_delete [OF owner svcs ans empty] oid name
  show ?thesis by auto
qed

subsection \<open>The model of the fan-out is sound\<close>

text \<open>
  \<open>fetchEventDetails\<close> is its request followed by \<open>fetchEventDetails_resume\<close>, and
  the destructuring parameter of the fan-out's callback never meets \<open>undefined\<close> or
  \<open>null\<close>, so that reading the three properties cannot throw.
\<close>

lemma fetchEventDetails_split:
  "fetchEventDetails w cfg serviceId t =
     fetchEventDetails_resume cfg serviceId (answer w (eventsRequest cfg serviceId) t)
       (t @ [Call (eventsRequest cfg serviceId)])"
  by (simp add: fetchEventDetails_def fetchEventDetails_resume_def axios_def catch_io_def
      bind_io_def lift_io_def)

lemma filter_err_set:
  "filter_err p xs = Inr ys \<Longrightarrow> x \<in> set ys \<Longrightarrow> p x = Inr True"
proof (induction xs arbitrary: ys)
  case Nil
  then show ?case by simp
next
  case (Cons a xs)
  then show ?case
    by (auto simp add: bind_err_def split: sum.splits if_splits)
qed

lemma map_err_set:
  "map_err f xs = Inr ys \<Longrightarrow> y \<in> set ys \<Longrightarrow> \<exists>x \<in> set xs. f x = Inr y"
proof (induction xs arbitrary: ys)
  case Nil
  then show ?case by simp
next
  case (Cons a xs)
  then show ?case
    by (auto simp add: bind_err_def split: sum.splits)
qed

lemma is_web_service_defined:
  "is_web_service item = Inr b \<Longrightarrow> js_get item ''service'' = Inr s \<Longrightarrow> s \<noteq> JUndef \<and> s \<noteq> JNull"
  by (auto simp add: is_web_service_def bind_err_def)

lemma unwrapped_services_defined:
  assumes "unwrapped_services d = Inr services" and "service \<in> set services"
  shows "service \<noteq> JUndef \<and> service \<noteq> JNull"
proof -
  obtain items where web: "web_services d = Inr items"
    and un: "map_err (\<lambda>item. js_get item ''service'') items = Inr services"
    using assms(1) by (auto simp add: unwrapped_services_def bind_err_def split: sum.splits)
  obtain item where item: "item \<in> set items" "js_get item ''service'' = Inr service"
    using map_err_set [OF un assms(2)] by blast
  obtain xs where "filter_err is_web_service xs = Inr items"
    using web by (auto simp add: web_services_def split: json.splits)
  then have "is_web_service item = Inr True"
    using item(1) by (rule filter_err_set)
  then show ?thesis using item(2) by (rule is_web_service_defined)
qed

lemma destructuring_total:
  assumes "unwrapped_services d = Inr services" and "service \<in> set services"
  shows "js_get service k = Inr (field_of service k)"
  using unwrapped_services_defined [OF assms] by (cases service) (simp_all add: field_of_def)

subsection \<open>The fan-out of the detail fetches\<close>

lemma issue_all_length: "length (fst (issue_all w rs t)) = length rs"
  by (induction rs arbitrary: t) (simp_all add: case_prod_beta)

lemma issue_all_trace: "snd (issue_all w rs t) = t @ map Call rs"
  by (induction rs arbitrary: t) (simp_all add: case_prod_beta)

lemma calls_map_Call: "calls (map Call rs) = rs"
  by (induction rs) auto

lemma detail_resume_eq:
  "detail_resume cfg service outcome t =
     (Inr (settled (service, outcome)),
      t @ (if detail_failed outcome then
             [LogError (''Error fetching event details for service ID '' @ to_string (field_of service ''id'') @ '':''),
              LogError (''Error fetching details for service ID '' @ to_string (field_of service ''id'') @ '':'')]
           else []))"
  by (cases outcome; cases "latestDetails (data (projr outcome))")
     (simp_all add: detail_resume_def fetchEventDetails_resume_def io_defs settled_def
        detail_outcome_def detail_failed_def bind_err_def)

lemma resume_all_result: "fst (resume_all cfg ps t) = Inr (map settled ps)"
proof (induction ps arbitrary: t)
  case Nil
  show ?case by (simp add: return_io_def)
next
  case (Cons p ps)
  obtain service outcome where p: "p = (service, outcome)" by (cases p)
  obtain t' where step: "detail_resume cfg service outcome t = (Inr (settled (service, outcome)), t')"
    using detail_resume_eq by blast
  obtain t'' where rest: "resume_all cfg ps t' = (Inr (map settled ps), t'')"
    using Cons.IH [of t'] by (metis prod.collapse)
  show ?case
    by (simp add: p bind_io_def step rest return_io_def)
qed

lemma resume_all_calls: "calls (snd (resume_all cfg ps t)) = calls t"
proof (induction ps arbitrary: t)
  case Nil
  show ?case by (simp add: return_io_def)
next
  case (Cons p ps)
  obtain service outcome where p: "p = (service, outcome)" by (cases p)
  obtain t' where step: "detail_resume cfg service outcome t = (Inr (settled (service, outcome)), t')"
    and t': "calls t' = calls t"
    using detail_resume_eq [of cfg service outcome t] by (simp add: calls_append)
  obtain t'' where rest: "resume_all cfg ps t' = (Inr (map settled ps), t'')"
    using resume_all_result [of cfg ps t'] by (metis prod.collapse)
  have "calls t'' = calls t'" using Cons.IH [of t'] rest by simp
  then show ?case
    by (simp add: p bind_io_def step rest return_io_def t')
qed

lemma promise_all_details_eq:
  "\<exists>t'. promise_all_details w cfg services t =
          (Inr (map settled (zip services (events_answers w cfg services t))), t')
        \<and> calls t' = calls t @ events_requests cfg services"
proof -
  let ?rs = "events_requests cfg services"
  let ?outs = "events_answers w cfg services t"
  have issue: "issue_all w ?rs t = (?outs, t @ map Call ?rs)"
    using issue_all_trace [of w ?rs t] by (simp add: events_answers_def prod_eq_iff)
  let ?t' = "snd (resume_all cfg (zip services ?outs) (t @ map Call ?rs))"
  have "promise_all_details w cfg services t = resume_all cfg (zip services ?outs) (t @ map Call ?rs)"
    using issue by (simp add: promise_all_details_def events_requests_def)
  then have "promise_all_details w cfg services t = (Inr (map settled (zip services ?outs)), ?t')"
    using resume_all_result [of cfg "zip services ?outs" "t @ map Call ?rs"]
    by (simp add: prod_eq_iff)
  moreover have "calls ?t' = calls t @ ?rs"
    by (simp add: resume_all_calls calls_append calls_map_Call)
  ultimately show ?thesis by blast
qed

lemma settled_null: "settled p \<noteq> JNull \<longleftrightarrow> \<not> detail_failed (snd p)"
  by (cases "detail_outcome (snd p)") (simp_all add: settled_def detail_failed_def detailed_def)

lemma filter_settled:
  "filter (\<lambda>service. service \<noteq> JNull) (map settled ps) =
   map settled (filter (\<lambda>p. \<not> detail_failed (snd p)) ps)"
  by (induction ps) (simp_all add: settled_null)

lemma fetchServices_fanout_eq:
  assumes "answer w (services_request cfg) t = Inr r"
    and "unwrapped_services (data r) = Inr services"
  shows "\<exists>t'. fetchServices_fanout w cfg t =
           (Inr (map settled (filter (\<lambda>p. \<not> detail_failed (snd p))
              (zip services (events_answers w cfg services (t @ [Call (services_request cfg)]))))), t')
         \<and> calls t' = calls t @ services_request cfg # events_requests cfg services"
proof -
  let ?t0 = "t @ [Call (services_request cfg)]"
  obtain t' where all: "promise_all_details w cfg services ?t0 =
      (Inr (map settled (zip services (events_answers w cfg services ?t0))), t')"
    and t': "calls t' = calls ?t0 @ events_requests cfg services"
    using promise_all_details_eq by blast
  have "fetchServices_fanout w cfg t =
      (Inr (filter (\<lambda>service. service \<noteq> JNull)
         (map settled (zip services (events_answers w cfg services ?t0)))), t')"
    using assms all
    by (simp add: fetchServices_fanout_def unwrapped_services_def services_request_def
        axios_get_def axios_def catch_io_def bind_io_def lift_io_def return_io_def)
  then show ?thesis using t' by (simp add: filter_settled calls_append)
qed

lemma filter_zip_snd_length:
  "length xs = length ys \<Longrightarrow>
   length (filter (\<lambda>p. P (snd p)) (zip xs ys)) = length (filter P ys)"
  by (induction xs ys rule: list_induct2) simp_all

lemma events_answers_length: "length (events_answers w cfg services t) = length services"
  by (simp add: events_answers_def issue_all_length events_requests_def)

text \<open>
  Claim C5. In \<open>fetchServices\<close> of the fan-out script, take the \<open>N\<close> filtered services
  and the answers to their events requests. Every detail fetch settles to the enriched
  service or, when it fails, to \<open>null\<close>; the call returns the entries that are not
  \<open>null\<close>, that is the enriched services whose fetch did not fail. When exactly one of
  the \<open>N\<close> fetches fails the result has \<open>N - 1\<close> entries. The call itself does not
  throw, and all \<open>N\<close> events requests are issued.
\<close>

theorem one_failed_detail_fetch_drops_one:
  assumes "answer w (services_request cfg) t = Inr r"
    and "unwrapped_services (data r) = Inr services"
    and "outs = events_answers w cfg services (t @ [Call (services_request cfg)])"
    and "length (filter detail_failed outs) = 1"
  shows "\<exists>t' kept.
           kept = filter (\<lambda>p. \<not> detail_failed (snd p)) (zip services outs)
         \<and> fst (promise_all_details w cfg services (t @ [Call (services_request cfg)])) =
             Inr (map settled (zip services outs))
         \<and> fetchServices_fanout w cfg t = (Inr (map settled kept), t')
         \<and> length (map settled kept) = length services - 1
         \<and> calls t' = calls t @ services_request cfg # events_requests cfg services"
proof -
  let ?kept = "filter (\<lambda>p. \<not> detail_failed (snd p)) (zip services outs)"
  obtain t' where run: "fetchServices_fanout w cfg t = (Inr (map settled ?kept), t')"
    and t': "calls t' = calls t @ services_request cfg # events_requests cfg services"
    using fetchServices_fanout_eq [OF assms(1,2)] assms(3) by blast
  have len: "length services = length outs"
    using assms(3) by (simp add: events_answers_length)
  have "length ?kept = length (filter (\<lambda>out. \<not> detail_failed out) outs)"
    using len by (rule filter_zip_snd_length)
  moreover have "length (filter detail_failed outs) + length (filter (\<lambda>out. \<not> detail_failed out) outs)
      = length outs"
    by (rule sum_length_filter_compl)
  ultimately have count: "length (map settled ?kept) = length services - 1"
    using assms(4) len by simp
  have "fst (promise_all_details w cfg services (t @ [Call (services_request cfg)])) =
      Inr (map settled (zip services outs))"
    using promise_all_details_eq [of w cfg services "t @ [Call (services_request cfg)]"] assms(3)
    by auto
  with run t' count show ?thesis by blast
qed

text \<open>
  Claim C5, at a concrete run: three web services, the events request of the second one
  fails.
\<close>

theorem one_failed_detail_fetch_drops_one_witness:
  "length (filter detail_failed
     (events_answers (scripted one_failure_script) filled_config
        [JObj [(''id'', JStr ''s1''), (''name'', JStr ''api''), (''type'', JStr ''web_service'')],
         JObj [(''id'', JStr ''s2''), (''name'', JStr ''site''), (''type'', JStr ''web_service'')],
         JObj [(''id'', JStr ''s3''), (''name'', JStr ''admin''), (''type'', JStr ''web_service'')]]
        [Call (services_request filled_config)])) = 1
   \<and> fst (fetchServices_fanout (scripted one_failure_script) filled_config []) =
       Inr [JObj [(''name'', JStr ''api''), (''id'', JStr ''s1''), (''type'', JStr ''web_service''),
                  (''details'', JObj [])],
            JObj [(''name'', JStr ''admin''), (''id'', JStr ''s3''), (''type'', JStr ''web_service''),
                  (''details'', JObj [])]]
   \<and> calls (snd (fetchServices_fanout (scripted one_failure_script) filled_config [])) =
       [services_request filled_config,
        eventsRequest filled_config (JStr ''s1''),
        eventsRequest filled_config (JStr ''s2''),
        eventsRequest filled_config (JStr ''s3'')]"
proof -
  let ?w = "scripted one_failure_script"
  let ?services =
    "[JObj [(''id'', JStr ''s1''), (''name'', JStr ''api''), (''type'', JStr ''web_service'')],
      JObj [(''id'', JStr ''s2''), (''name'', JStr ''site''), (''type'', JStr ''web_service'')],
      JObj [(''id'', JStr ''s3''), (''name'', JStr ''admin''), (''type'', JStr ''web_service'')]]"
  let ?outs = "[Inr \<lparr>status = 200, data = JArr []\<rparr>, Inl AxiosError, Inr \<lparr>status = 200, data = JArr []\<rparr>]"
  have ans: "answer ?w (services_request filled_config) [] = Inr \<lparr>status = 200, data = three_services\<rparr>"
    by (simp add: example_defs one_failure_script_def)
  have unwrapped: "unwrapped_services (data \<lparr>status = 200, data = three_services\<rparr>) = Inr ?services"
    by (simp add: unwrapped_services_def web_services_def is_web_service_def bind_err_def
        three_services_def)
  have outs: "?outs = events_answers ?w filled_config ?services ([] @ [Call (services_request filled_config)])"
    by (simp add: events_answers_def events_requests_def example_defs one_failure_script_def
        field_of_def)
  have one: "length (filter detail_failed ?outs) = 1"
    by (simp add: detail_failed_def detail_outcome_def bind_err_def latestDetails_def)
  from one_failed_detail_fetch_drops_one [OF ans unwrapped outs one]
  obtain t' where run: "fetchServices_fanout ?w filled_config [] =
      (Inr (map settled (filter (\<lambda>p. \<not> detail_failed (snd p)) (zip ?services ?outs))), t')"
    and t': "calls t' = calls [] @ services_request filled_config # events_requests filled_config ?services"
    by blast
  have kept: "map settled (filter (\<lambda>p. \<not> detail_failed (snd p)) (zip ?services ?outs)) =
      [JObj [(''name'', JStr ''api''), (''id'', JStr ''s1''), (''type'', JStr ''web_service''),
             (''details'', JObj [])],
       JObj [(''name'', JStr ''admin''), (''id'', JStr ''s3''), (''type'', JStr ''web_service''),
             (''details'', JObj [])]]"
    by (simp add: settled_def detail_failed_def detail_outcome_def bind_err_def latestDetails_def
        detailed_def field_of_def)
  have reqs: "events_requests filled_config ?services =
      [eventsRequest filled_config (JStr ''s1''), eventsRequest filled_config (JStr ''s2''),
       eventsRequest filled_config (JStr ''s3'')]"
    by (simp add: events_requests_def field_of_def)
  from run t' kept reqs one outs show ?thesis by simp
qed

subsection \<open>The latest deploy event\<close>












subsection \<open>Service filtering and the entries it returns\<close>

lemma has_service_get:
  "has_service item \<Longrightarrow>
   js_get item ''service'' = Inr (service_of item)
   \<and> (\<forall>k. js_get (service_of item) k = Inr (field_of (service_of item) k))"
  by (cases item; cases "service_of item")
     (auto simp add: has_service_def service_of_def field_of_def split: sum.splits)

lemma is_web_service_eq: "has_service item \<Longrightarrow> is_web_service item = Inr (is_web item)"
  using has_service_get [of item] by (simp add: is_web_service_def bind_err_def is_web_def)

lemma filter_err_web: "list_all has_service items \<Longrightarrow> filter_err is_web_service items = Inr (filter is_web items)"
  by (induction items) (simp_all add: is_web_service_eq bind_err_def)

lemma web_services_eq:
  "list_all has_service items \<Longrightarrow> web_services (JArr items) = Inr (filter is_web items)"
  by (simp add: web_services_def filter_err_web)

lemma has_service_not_null: "has_service item \<Longrightarrow> item \<noteq> JNull"
  by (auto simp add: has_service_def)

lemma filter_not_null: "list_all has_service items \<Longrightarrow> filter (\<lambda>service. service \<noteq> JNull) items = items"
  by (induction items) (auto dest: has_service_not_null)

lemma list_all_filter: "list_all P xs \<Longrightarrow> list_all P (filter Q xs)"
  by (induction xs) auto

lemma map_err_service: "list_all has_service items \<Longrightarrow>
   map_err (\<lambda>item. js_get item ''service'') items = Inr (map service_of items)"
  by (induction items) (simp_all add: has_service_get bind_err_def)

lemma unwrapped_services_eq:
  "list_all has_service items \<Longrightarrow>
   unwrapped_services (JArr items) = Inr (map service_of (filter is_web items))"
  by (simp add: unwrapped_services_def web_services_eq bind_err_def map_err_service list_all_filter)

lemma fetchServices_eq:
  assumes "answer w (services_request cfg) t = Inr r"
    and "data r = JArr items"
    and "list_all has_service items"
  shows "fetchServices w cfg t = (Inr (filter is_web items), t @ [Call (services_request cfg)])"
  using assms web_services_eq [OF assms(3)] filter_not_null [OF list_all_filter [OF assms(3)], of is_web]
  by (simp add: fetchServices_def services_request_def axios_get_def axios_def catch_io_def
      bind_io_def lift_io_def return_io_def)

text \<open>
  Claim C6, as amended. For a services list whose entries each carry a service,
  \<open>fetchServices\<close> of the interactive and module scripts returns exactly the entries
  whose \<open>service.type\<close> is \<open>web_service\<close>, in the order of the response (so for every
  ordering of the response). \<open>fetchServices\<close> of the fan-out script starts from the same
  entries, unwrapped, and returns those of them whose detail fetch did not fail, each
  enriched with its details.
\<close>

theorem services_filtered_by_type:
  assumes "answer w (services_request cfg) t = Inr r"
    and "data r = JArr items"
    and "list_all has_service items"
  shows "fetchServices w cfg t = (Inr (filter is_web items), t @ [Call (services_request cfg)])
       \<and> (\<exists>t'. fetchServices_fanout w cfg t =
             (Inr (map settled
                (filter (\<lambda>p. \<not> detail_failed (snd p))
                   (zip (map service_of (filter is_web items))
                      (events_answers w cfg (map service_of (filter is_web items))
                         (t @ [Call (services_request cfg)]))))), t'))"
proof -
  have "unwrapped_services (data r) = Inr (map service_of (filter is_web items))"
    using assms(2,3) by (simp add: unwrapped_services_eq)
  from fetchServices_fanout_eq [OF assms(1) this] fetchServices_eq [OF assms]
  show ?thesis by blast
qed

text \<open>
  Claim C6 as stated fails in the fan-out script: the list holds one entry of type
  \<open>web_service\<close>, its events request fails, and \<open>fetchServices\<close> returns the empty
  list.
\<close>

theorem failed_detail_drops_web_service_counterexample:
  "web_services services_s1 =
     Inr [JObj [(''cursor'', JStr ''c1''),
                (''service'', JObj [(''id'', JStr ''s1''), (''type'', JStr ''web_service'')])]]
   \<and> fst (fetchServices_fanout (scripted [ok services_s1, None]) filled_config []) = Inr []"
  by (simp add: run_defs example_defs)

text \<open>
  Claim C6 as amended, at concrete runs of both scripts: two web services around a
  background worker.
\<close>

theorem services_filtered_by_type_witness:
  "fetchServices (scripted [ok mixed_services]) filled_config [] =
     (Inr [JObj [(''cursor'', JStr ''c1''),
                 (''service'', JObj [(''id'', JStr ''s1''), (''name'', JStr ''api''), (''type'', JStr ''web_service'')])],
           JObj [(''cursor'', JStr ''c3''),
                 (''service'', JObj [(''id'', JStr ''s3''), (''name'', JStr ''site''), (''type'', JStr ''web_service'')])]],
      [Call (services_request filled_config)])
   \<and> fst (fetchServices_fanout (scripted [ok mixed_services, ok (JArr []), ok (JArr [])]) filled_config []) =
     Inr [JObj [(''name'', JStr ''api''), (''id'', JStr ''s1''), (''type'', JStr ''web_service''),
                (''details'', JObj [])],
          JObj [(''name'', JStr ''site''), (''id'', JStr ''s3''), (''type'', JStr ''web_service''),
                (''details'', JObj [])]]"
proof -
  let ?items = "[JObj [(''cursor'', JStr ''c1''),
                 (''service'', JObj [(''id'', JStr ''s1''), (''name'', JStr ''api''), (''type'', JStr ''web_service'')])],
           JObj [(''cursor'', JStr ''c2''),
                 (''service'', JObj [(''id'', JStr ''s2''), (''name'', JStr ''jobs''), (''type'', JStr ''background_worker'')])],
           JObj [(''cursor'', JStr ''c3''),
                 (''service'', JObj [(''id'', JStr ''s3''), (''name'', JStr ''site''), (''type'', JStr ''web_service'')])]]"
  let ?resp = "\<lparr>status = 200, data = mixed_services\<rparr>"
  let ?w = "scripted [ok mixed_services]"
  let ?w' = "scripted [ok mixed_services, ok (JArr []), ok (JArr [])]"
  have ans: "answer ?w (services_request filled_config) [] = Inr ?resp"
    by (simp add: answer_def scripted_def ok_def)
  have ans': "answer ?w' (services_request filled_config) [] = Inr ?resp"
    by (simp add: answer_def scripted_def ok_def)
  have items: "data ?resp = JArr ?items"
    by (simp add: mixed_services_def)
  have wf: "list_all has_service ?items"
    by (simp add: has_service_def)
  have web: "filter is_web ?items =
      [JObj [(''cursor'', JStr ''c1''),
             (''service'', JObj [(''id'', JStr ''s1''), (''name'', JStr ''api''), (''type'', JStr ''web_service'')])],
       JObj [(''cursor'', JStr ''c3''),
             (''service'', JObj [(''id'', JStr ''s3''), (''name'', JStr ''site''), (''type'', JStr ''web_service'')])]]"
    by (simp add: is_web_def service_of_def field_of_def)
  have first: "fetchServices ?w filled_config [] = (Inr (filter is_web ?items), [] @ [Call (services_request filled_config)])"
    using services_filtered_by_type [OF ans items wf] by blast
  have "\<exists>t'. fetchServices_fanout ?w' filled_config [] =
             (Inr (map settled
                (filter (\<lambda>p. \<not> detail_failed (snd p))
                   (zip (map service_of (filter is_web ?items))
                      (events_answers ?w' filled_config (map service_of (filter is_web ?items))
                         ([] @ [Call (services_request filled_config)]))))), t')"
    using services_filtered_by_type [OF ans' items wf] by blast
  then have second: "fst (fetchServices_fanout ?w' filled_config []) =
      Inr [JObj [(''name'', JStr ''api''), (''id'', JStr ''s1''), (''type'', JStr ''web_service''),
                 (''details'', JObj [])],
           JObj [(''name'', JStr ''site''), (''id'', JStr ''s3''), (''type'', JStr ''web_service''),
                 (''details'', JObj [])]]"
    unfolding web
    by (auto simp add: service_of_def field_of_def events_answers_def events_requests_def
        answer_def scripted_def ok_def settled_def detail_failed_def detail_outcome_def bind_err_def
        latestDetails_def detailed_def)
  from first second web show ?thesis by simp
qed









text \<open>
  Claim C3, evaluated. Owner \<open>o1\<close>, no database, one web service \<open>s1\<close>, name and key
  filled in. The interactive and the module script issue the owner, service and database
  fetches, the create request with \<open>ownerId\<close> \<open>o1\<close> and the connection-info fetch for
  the new id, but then PUT and POST to \<open>/services/undefined/...\<close> instead of service
  \<open>s1\<close>. The fan-out script, whose service fetch includes the events request of
  \<open>s1\<close>, repoints and deploys \<open>s1\<close>.
\<close>

theorem scenario_repoints_undefined_service:
  "calls (snd (rebuildDatabase (scripted empty_list_script) filled_config [])) =
     [owners_request filled_config,
      services_request filled_config,
      postgres_request filled_config,
      create_postgres_request filled_config (JStr ''my-db'') (JStr ''o1''),
      connection_info_request filled_config (JStr ''db2''),
      env_var_request filled_config JUndef (JStr ''DATABASE_URL'') (JStr ''postgres://db2''),
      deploy_request filled_config JUndef]
   \<and> calls (snd (rebuildDatabase_module (scripted empty_list_script) filled_config [])) =
       calls (snd (rebuildDatabase (scripted empty_list_script) filled_config []))
   \<and> url (env_var_request filled_config JUndef (JStr ''DATABASE_URL'') (JStr ''postgres://db2'')) =
       ''https://api.render.com/v1/services/undefined/env-vars/DATABASE_URL''
   \<and> url (deploy_request filled_config JUndef) =
       ''https://api.render.com/v1/services/undefined/deploys''
   \<and> calls (snd (rebuildDatabase_fanout (scripted fanout_scenario_script) filled_config [])) =
     [owners_request filled_config,
      services_request filled_config,
      eventsRequest filled_config (JStr ''s1''),
      postgres_request filled_config,
      create_postgres_request filled_config (JStr ''my-db'') (JStr ''o1''),
      connection_info_request filled_config (JStr ''db2''),
      env_var_request filled_config (JStr ''s1'') (JStr ''DATABASE_URL'') (JStr ''postgres://db2''),
      deploy_request filled_config (JStr ''s1'')]"
  by (simp add: rebuildDatabase_def rebuildDatabase_module_def rebuildDatabase_fanout_def
      validateVariables_def missingVariables_def rebuildSteps_def createAndRepoint_def
      createDatabase_def fetchConnectionInfo_def updateEnvVariable_def deployService_def
      run_defs example_defs empty_list_script_def fanout_scenario_script_def
      put_request_def post_request_def)

end
